theory Spec2Isabelle
  imports Complex_Main
begin

section \<open>Relevance vector regression (sklearn\_rvm/rvm.py)\<close>

text \<open>
  The embedding follows \<^verbatim>\<open>RVR\<close> in \<^verbatim>\<open>src/sklearn_rvm/rvm.py\<close>.
  Numbers are modelled as real numbers: NumPy's float64 rounding, infinities and NaN are
  outside the model, so every statement below is one about the control structure and the
  exact arithmetic of the algorithm.  A division by zero, which NumPy answers with a
  warning and \<open>inf\<close> or \<open>nan\<close>, raises nothing in the model either (its value there is
  \<open>0\<close>).  Arrays are lists, matrices are lists of rows, and the shapes are those \<^verbatim>\<open>fit\<close>
  builds: \<open>K\<close> has \<open>n_samples\<close> rows and \<open>n_samples + 1\<close> columns, \<open>alpha\<close> and \<open>used_cond\<close>
  have \<open>n_samples + 1\<close> entries.
  The collaborators that are not part of the file (the pairwise kernel, the matrix inverse
  and pseudo-inverse of \<^verbatim>\<open>numpy.linalg\<close>) are parameters of the definitions.
\<close>

subsection \<open>Values and exceptions\<close>

datatype error =
    NotFittedError | TypeError | ValueError | IndexError | AxisError
  | LinAlgError | AttributeError

datatype pyval =
    PNone | PBool bool | PInt int | PFloat real | PStr string
  | PVec "real list" | PMat "real list list"

type_synonym vec = "real list"
type_synonym mat = "real list list"

text \<open>Line 17: \<^verbatim>\<open>INFINITY = 1e20\<close>.\<close>

definition INFINITY :: real where
  "INFINITY = 10 ^ 20"

subsection \<open>The NumPy operations the file uses\<close>

definition dot :: "vec \<Rightarrow> vec \<Rightarrow> real" where
  "dot u v = sum_list (map2 (*) u v)"

text \<open>\<^verbatim>\<open>M[:, j]\<close>\<close>
definition column :: "mat \<Rightarrow> nat \<Rightarrow> vec" where
  "column M j = map (\<lambda>r. r ! j) M"

text \<open>\<^verbatim>\<open>M.T\<close> for a matrix with \<open>k\<close> columns.\<close>
definition transpose_m :: "nat \<Rightarrow> mat \<Rightarrow> mat" where
  "transpose_m k M = map (column M) [0..<k]"

text \<open>\<^verbatim>\<open>M @ v\<close>\<close>
definition mat_vec :: "mat \<Rightarrow> vec \<Rightarrow> vec" where
  "mat_vec M v = map (\<lambda>r. dot r v) M"

text \<open>\<^verbatim>\<open>v @ M\<close> for a matrix with \<open>k\<close> columns.\<close>
definition vec_mat :: "nat \<Rightarrow> vec \<Rightarrow> mat \<Rightarrow> vec" where
  "vec_mat k v M = map (\<lambda>j. dot v (column M j)) [0..<k]"

text \<open>\<^verbatim>\<open>A @ B\<close> where \<open>B\<close> has \<open>k\<close> columns.\<close>
definition mat_mul :: "nat \<Rightarrow> mat \<Rightarrow> mat \<Rightarrow> mat" where
  "mat_mul k A B = map (\<lambda>a. vec_mat k a B) A"

text \<open>\<^verbatim>\<open>c * M\<close>\<close>
definition scale :: "real \<Rightarrow> mat \<Rightarrow> mat" where
  "scale c M = map (map ((*) c)) M"

text \<open>\<^verbatim>\<open>A + B\<close>\<close>
definition mat_add :: "mat \<Rightarrow> mat \<Rightarrow> mat" where
  "mat_add A B = map2 (map2 (+)) A B"

text \<open>\<^verbatim>\<open>np.diag(v)\<close> of a vector: the diagonal matrix.\<close>
definition np_diag :: "vec \<Rightarrow> mat" where
  "np_diag v = map (\<lambda>i. map (\<lambda>j. if i = j then v ! i else 0) [0..<length v]) [0..<length v]"

text \<open>\<^verbatim>\<open>np.diag(M)\<close> of a square matrix: its diagonal.\<close>
definition diagonal :: "mat \<Rightarrow> vec" where
  "diagonal M = map (\<lambda>i. M ! i ! i) [0..<length M]"

text \<open>\<^verbatim>\<open>np.identity(n)\<close>\<close>
definition identity :: "nat \<Rightarrow> mat" where
  "identity n = np_diag (replicate n 1)"

text \<open>\<^verbatim>\<open>linalg.norm(v)\<close>: the Euclidean norm.\<close>
definition linalg_norm :: "vec \<Rightarrow> real" where
  "linalg_norm v = sqrt (sum_list (map (\<lambda>x. x ^ 2) v))"

definition np_mean :: "vec \<Rightarrow> real" where
  "np_mean v = sum_list v / real (length v)"

text \<open>\<^verbatim>\<open>np.std(y)\<close>: the population standard deviation.\<close>
definition np_std :: "vec \<Rightarrow> real" where
  "np_std v = sqrt (np_mean (map (\<lambda>x. (x - np_mean v) ^ 2) v))"

text \<open>\<^verbatim>\<open>xs[mask]\<close> for a boolean mask of the length of \<open>xs\<close>.\<close>
definition mask_select :: "bool list \<Rightarrow> 'a list \<Rightarrow> 'a list" where
  "mask_select msk xs = map snd (filter fst (zip msk xs))"

text \<open>
  \<^verbatim>\<open>xs[mask]\<close> as NumPy checks it: a boolean index whose length differs from the
  indexed dimension raises IndexError.
\<close>
definition bool_index :: "bool list \<Rightarrow> 'a list \<Rightarrow> error + 'a list" where
  "bool_index msk xs =
     (if length msk = length xs then Inr (mask_select msk xs) else Inl IndexError)"

text \<open>\<^verbatim>\<open>np.sum(mask)\<close> of a boolean array.\<close>
definition count_true :: "bool list \<Rightarrow> nat" where
  "count_true msk = length (filter id msk)"

text \<open>
  \<^verbatim>\<open>np.max(a, axis)\<close> for a scalar \<open>a\<close> (a zero-dimensional array): the second
  positional argument of \<^verbatim>\<open>numpy.max\<close> is the axis, which must be None or an
  integer; on a zero-dimensional array only the axes 0 and -1 are accepted.
\<close>
fun np_max :: "real \<Rightarrow> pyval \<Rightarrow> error + real" where
  "np_max a PNone = Inr a"
| "np_max a (PInt k) = (if k = 0 \<or> k = - 1 then Inr a else Inl AxisError)"
| "np_max a (PBool b) = (if \<not> b then Inr a else Inl AxisError)"
| "np_max a (PFloat r) = Inl TypeError"
| "np_max a (PStr s) = Inl TypeError"
| "np_max a (PVec v) = Inl TypeError"
| "np_max a (PMat m) = Inl TypeError"

text \<open>\<^verbatim>\<open>math.log(x)\<close>: raises ValueError (math domain error) unless \<open>0 < x\<close>.\<close>
definition math_log :: "real \<Rightarrow> error + real" where
  "math_log x = (if 0 < x then Inr (ln x) else Inl ValueError)"

subsection \<open>Statistics (\_calculate\_statistics, lines 131--186)\<close>

text \<open>
  Lines 160--166 (and again 291--297): a one-by-one matrix is inverted by the scalar
  reciprocal; otherwise \<^verbatim>\<open>linalg.inv\<close> is tried and a LinAlgError is caught and
  answered by \<^verbatim>\<open>linalg.pinv\<close>.  \<open>inv_f\<close> and \<open>pinv_f\<close> are the two library functions;
  the pseudo-inverse of a real matrix always exists, so \<open>pinv_f\<close> is total.
\<close>
definition invert :: "(mat \<Rightarrow> error + mat) \<Rightarrow> (mat \<Rightarrow> mat) \<Rightarrow> mat \<Rightarrow> error + mat" where
  "invert inv_f pinv_f tmp =
     (if length tmp = 1 then Inr (map (map (\<lambda>x. 1 / x)) tmp)
      else (case inv_f tmp of
              Inr M \<Rightarrow> Inr M
            | Inl e \<Rightarrow> (if e = LinAlgError then Inr (pinv_f tmp) else Inl e)))"

text \<open>Lines 156--159: \<^verbatim>\<open>tmp = A + (1 / sigma_squared) * Phi.T @ Phi\<close>.\<close>
definition precision_matrix :: "mat \<Rightarrow> vec \<Rightarrow> bool list \<Rightarrow> real \<Rightarrow> mat" where
  "precision_matrix K alpha used_cond sigma_squared =
     (let k = count_true used_cond;
          A = np_diag (mask_select used_cond alpha);
          Phi = map (mask_select used_cond) K
      in mat_add A (mat_mul k (scale (1 / sigma_squared) (transpose_m k Phi)) Phi))"

text \<open>Line 168 (and 298): \<^verbatim>\<open>mu = (1 / sigma_squared) * Sigma @ Phi.T @ y\<close>.\<close>
definition posterior_mean :: "mat \<Rightarrow> mat \<Rightarrow> vec \<Rightarrow> real \<Rightarrow> nat \<Rightarrow> vec" where
  "posterior_mean Sigma' Phi y sigma_squared k =
     mat_vec (mat_mul (length y) (scale (1 / sigma_squared) Sigma') (transpose_m k Phi)) y"

text \<open>
  Lines 175--181, the body of the loop over the candidates: the pair \<open>(Q[i], S[i])\<close>.
  \<open>k\<close> is the number of columns of \<open>Phi\<close>.
\<close>
definition QS :: "mat \<Rightarrow> mat \<Rightarrow> mat \<Rightarrow> mat \<Rightarrow> vec \<Rightarrow> nat \<Rightarrow> nat \<Rightarrow> real \<times> real" where
  "QS K Phi Sigma' B y k i =
     (let n_samples = length y;
          basis = column K i;
          tmp_1 = vec_mat n_samples basis B;
          tmp_2 = vec_mat n_samples
                    (vec_mat n_samples
                       (vec_mat k (vec_mat k tmp_1 Phi) Sigma')
                       (transpose_m k Phi))
                    B
      in (dot tmp_1 y - dot tmp_2 y, dot tmp_1 basis - dot tmp_2 basis))"

definition calculate_statistics ::
  "(mat \<Rightarrow> error + mat) \<Rightarrow> (mat \<Rightarrow> mat) \<Rightarrow> mat \<Rightarrow> vec \<Rightarrow> bool list \<Rightarrow> vec \<Rightarrow> real
   \<Rightarrow> error + (mat \<times> vec \<times> vec \<times> vec \<times> mat)" where
  "calculate_statistics inv_f pinv_f K alpha used_cond y sigma_squared =
     (let n_samples = length y;
          k = count_true used_cond;
          Phi = map (mask_select used_cond) K;
          tmp = precision_matrix K alpha used_cond sigma_squared
      in case invert inv_f pinv_f tmp of
           Inl e \<Rightarrow> Inl e
         | Inr Sigma' \<Rightarrow>
             (let mu = posterior_mean Sigma' Phi y sigma_squared k;
                  B = map (map (\<lambda>x. x / sigma_squared)) (identity n_samples);
                  QSs = map (QS K Phi Sigma' B y k) [0..<n_samples + 1];
                  Q = map fst QSs;
                  S = map snd QSs;
                  s = map2 (\<lambda>a S. (a * S) / (a - S)) alpha S;
                  q = map2 (\<lambda>(a, S) Q. (a * Q) / (a - S)) (zip alpha S) Q
              in Inr (Sigma', mu, s, q, Phi)))"

subsection \<open>The basis-selection loop (fit, lines 218--307)\<close>

record loop_state =
  st_alpha :: vec
  st_used_cond :: "bool list"
  st_Sigma :: mat
  st_mu :: vec
  st_s :: vec
  st_q :: vec
  st_Phi :: mat
  st_sigma_squared :: real
  st_queue :: "nat list"

datatype 'a outcome = Break 'a | Continue 'a

text \<open>
  Lines 246--265: the action on the candidate \<open>basis_idx\<close>.  The result is the new
  \<open>alpha\<close>, the new \<open>used_cond\<close> and the flag \<open>reestimate_action\<close>.
\<close>
definition select_action ::
  "vec \<Rightarrow> bool list \<Rightarrow> vec \<Rightarrow> vec \<Rightarrow> vec \<Rightarrow> nat \<Rightarrow> vec \<times> bool list \<times> bool" where
  "select_action alpha used_cond s q theta basis_idx =
     (if theta ! basis_idx > 0 \<and> alpha ! basis_idx < INFINITY then
        (alpha[basis_idx := (s ! basis_idx) ^ 2 / ((q ! basis_idx) ^ 2 - s ! basis_idx)],
         used_cond, True)
      else if theta ! basis_idx > 0 \<and> alpha ! basis_idx \<ge> INFINITY then
        (alpha[basis_idx := (s ! basis_idx) ^ 2 / ((q ! basis_idx) ^ 2 - s ! basis_idx)],
         used_cond[basis_idx := True], False)
      else if theta ! basis_idx \<le> 0 \<and> alpha ! basis_idx < INFINITY then
        (alpha[basis_idx := INFINITY], used_cond[basis_idx := False], False)
      else (alpha, used_cond, False))"

text \<open>Lines 282--283: the test that guards \<^verbatim>\<open>break\<close>.\<close>
definition converged :: "real \<Rightarrow> bool \<Rightarrow> real \<Rightarrow> vec \<Rightarrow> bool list \<Rightarrow> bool" where
  "converged tol reestimate_action delta theta old_used_cond =
     (let not_used_cond = map Not old_used_cond
      in reestimate_action \<and> delta < tol \<and>
         list_all (\<lambda>th. th \<le> 0) (mask_select not_used_cond theta))"

text \<open>Lines 286--304: the noise level from the updated \<open>Sigma\<close> and \<open>mu\<close>.\<close>
definition estimate_noise ::
  "(mat \<Rightarrow> error + mat) \<Rightarrow> (mat \<Rightarrow> mat) \<Rightarrow> mat \<Rightarrow> vec \<Rightarrow> bool list \<Rightarrow> vec \<Rightarrow> nat \<Rightarrow> real
   \<Rightarrow> error + real" where
  "estimate_noise inv_f pinv_f K alpha used_cond y n_samples sigma_squared =
     (let k = count_true used_cond;
          Phi = map (mask_select used_cond) K;
          tmp = precision_matrix K alpha used_cond sigma_squared
      in case invert inv_f pinv_f tmp of
           Inl e \<Rightarrow> Inl e
         | Inr Sigma' \<Rightarrow>
             (let mu = posterior_mean Sigma' Phi y sigma_squared k;
                  y_pred = mat_vec Phi mu
              in Inr ((linalg_norm (map2 (-) y y_pred)) ^ 2 /
                      (real n_samples - real (count_true used_cond) +
                       sum_list (map2 (*) (mask_select used_cond alpha) (diagonal Sigma'))))))"

text \<open>
  Lines 236--307: one pass through the body of the \<^verbatim>\<open>for\<close> loop.  The verbose
  printing has no effect on the state and is left out.
\<close>
definition iteration ::
  "(mat \<Rightarrow> error + mat) \<Rightarrow> (mat \<Rightarrow> mat) \<Rightarrow> real \<Rightarrow> mat \<Rightarrow> vec \<Rightarrow> nat \<Rightarrow> loop_state
   \<Rightarrow> error + loop_state outcome" where
  "iteration inv_f pinv_f tol K y n_samples st =
     (case st_queue st of
        [] \<Rightarrow> Inl IndexError
      | basis_idx # rest \<Rightarrow>
          (let queue = rest @ [basis_idx];
               old_alpha = st_alpha st;
               old_used_cond = st_used_cond st;
               theta = map2 (\<lambda>q s. q ^ 2 - s) (st_q st) (st_s st);
               (alpha, used_cond, reestimate_action) =
                  select_action old_alpha old_used_cond (st_s st) (st_q st) theta basis_idx
           in case math_log (alpha ! basis_idx) of
                Inl e \<Rightarrow> Inl e
              | Inr log_new \<Rightarrow>
                 (case math_log (old_alpha ! basis_idx) of
                    Inl e \<Rightarrow> Inl e
                  | Inr log_old \<Rightarrow>
                     (let delta = log_new - log_old
                      in if converged tol reestimate_action delta theta old_used_cond then
                           Inr (Break (st\<lparr>st_alpha := alpha, st_used_cond := used_cond,
                                          st_queue := queue\<rparr>))
                         else
                           (case estimate_noise inv_f pinv_f K alpha used_cond y n_samples
                                   (st_sigma_squared st) of
                              Inl e \<Rightarrow> Inl e
                            | Inr sigma_squared \<Rightarrow>
                               (case calculate_statistics inv_f pinv_f K alpha used_cond y
                                       sigma_squared of
                                  Inl e \<Rightarrow> Inl e
                                | Inr (Sigma', mu, s, q, Phi) \<Rightarrow>
                                    Inr (Continue
                                      \<lparr>st_alpha = alpha, st_used_cond = used_cond,
                                       st_Sigma = Sigma', st_mu = mu, st_s = s, st_q = q,
                                       st_Phi = Phi, st_sigma_squared = sigma_squared,
                                       st_queue = queue\<rparr>)))))))"

text \<open>\<^verbatim>\<open>for iter in range(self.max_iter)\<close>: at most \<open>max_iter\<close> passes, left early by \<^verbatim>\<open>break\<close>.\<close>
fun run_loop ::
  "(mat \<Rightarrow> error + mat) \<Rightarrow> (mat \<Rightarrow> mat) \<Rightarrow> real \<Rightarrow> mat \<Rightarrow> vec \<Rightarrow> nat \<Rightarrow> nat \<Rightarrow> loop_state
   \<Rightarrow> error + loop_state" where
  "run_loop inv_f pinv_f tol K y n_samples 0 st = Inr st"
| "run_loop inv_f pinv_f tol K y n_samples (Suc max_iter) st =
     (case iteration inv_f pinv_f tol K y n_samples st of
        Inl e \<Rightarrow> Inl e
      | Inr (Break st') \<Rightarrow> Inr st'
      | Inr (Continue st') \<Rightarrow> run_loop inv_f pinv_f tol K y n_samples max_iter st')"

text \<open>Lines 218--233: the state before the first pass.\<close>
definition initial_state ::
  "(mat \<Rightarrow> error + mat) \<Rightarrow> (mat \<Rightarrow> mat) \<Rightarrow> mat \<Rightarrow> vec \<Rightarrow> nat \<Rightarrow> real \<Rightarrow> error + loop_state" where
  "initial_state inv_f pinv_f K y n_samples sigma_squared =
     (let alpha0 = replicate (n_samples + 1) INFINITY;
          used_cond0 = replicate (n_samples + 1) False;
          basis_idx = 0;
          basis = column K basis_idx;
          basis_norm = linalg_norm basis;
          alpha = alpha0[basis_idx :=
                    basis_norm ^ 2 /
                    ((linalg_norm [dot basis y]) ^ 2 / basis_norm ^ 2 - sigma_squared)];
          used_cond = used_cond0[basis_idx := True]
      in case calculate_statistics inv_f pinv_f K alpha used_cond y sigma_squared of
           Inl e \<Rightarrow> Inl e
         | Inr (Sigma', mu, s, q, Phi) \<Rightarrow>
             Inr \<lparr>st_alpha = alpha, st_used_cond = used_cond, st_Sigma = Sigma', st_mu = mu,
                  st_s = s, st_q = q, st_Phi = Phi, st_sigma_squared = sigma_squared,
                  st_queue = [0..<n_samples + 1]\<rparr>)"

text \<open>
  Lines 311--327: the fitted attributes \<open>(relevance_vectors_, mu_, Sigma_, sigma_squared_)\<close>.
  \<open>Sigma\<close> is square, so the column mask of line 326 meets the length the row mask was
  checked against.
\<close>
definition extract_model ::
  "mat \<Rightarrow> real \<Rightarrow> loop_state \<Rightarrow> error + (mat \<times> vec \<times> mat \<times> real)" where
  "extract_model X threshold_alpha st =
     (let alpha_bias = st_alpha st ! 0;
          alpha_basis0 = tl (st_alpha st);
          used_basis = tl (st_used_cond st)
      in case bool_index used_basis alpha_basis0 of
           Inl e \<Rightarrow> Inl e
         | Inr alpha_basis \<Rightarrow>
            (case bool_index used_basis X of
               Inl e \<Rightarrow> Inl e
             | Inr X_rv \<Rightarrow>
                (let cond_bias_rv = alpha_bias < threshold_alpha;
                     cond_basis_rv = map (\<lambda>a. a < threshold_alpha) alpha_basis
                 in case bool_index cond_basis_rv X_rv of
                      Inl e \<Rightarrow> Inl e
                    | Inr relevance_vectors \<Rightarrow>
                       (let selected_basis = cond_bias_rv # cond_basis_rv
                        in case bool_index selected_basis (st_mu st) of
                             Inl e \<Rightarrow> Inl e
                           | Inr mu_sel \<Rightarrow>
                              (case bool_index selected_basis (st_Sigma st) of
                                 Inl e \<Rightarrow> Inl e
                               | Inr Sigma_rows \<Rightarrow>
                                   Inr (relevance_vectors, mu_sel,
                                        map (mask_select selected_basis) Sigma_rows,
                                        st_sigma_squared st))))))"

text \<open>Lines 218--307: the initial state and the loop, for a first noise variance.\<close>
definition fit_loop ::
  "(mat \<Rightarrow> error + mat) \<Rightarrow> (mat \<Rightarrow> mat) \<Rightarrow> real \<Rightarrow> nat \<Rightarrow> mat \<Rightarrow> vec \<Rightarrow> nat \<Rightarrow> real
   \<Rightarrow> error + loop_state" where
  "fit_loop inv_f pinv_f tol max_iter K y n_samples sigma_squared =
     (case initial_state inv_f pinv_f K y n_samples sigma_squared of
        Inl e \<Rightarrow> Inl e
      | Inr st \<Rightarrow> run_loop inv_f pinv_f tol K y n_samples max_iter st)"

text \<open>Lines 218--327: everything in \<^verbatim>\<open>fit\<close> after the noise variance has its first value.\<close>
definition fit_body ::
  "(mat \<Rightarrow> error + mat) \<Rightarrow> (mat \<Rightarrow> mat) \<Rightarrow> real \<Rightarrow> real \<Rightarrow> nat \<Rightarrow> mat \<Rightarrow> mat \<Rightarrow> vec \<Rightarrow> real
   \<Rightarrow> error + (mat \<times> vec \<times> mat \<times> real)" where
  "fit_body inv_f pinv_f tol threshold_alpha max_iter X K y sigma_squared =
     (case fit_loop inv_f pinv_f tol max_iter K y (length X) sigma_squared of
        Inl e \<Rightarrow> Inl e
      | Inr st \<Rightarrow> extract_model X threshold_alpha st)"

text \<open>Line 216: \<^verbatim>\<open>sigma_squared = (np.max(1e-6, np.std(y)) ** 2) * 0.1\<close>.\<close>
definition init_sigma_squared :: "vec \<Rightarrow> error + real" where
  "init_sigma_squared y =
     (case np_max (1 / 10 ^ 6) (PFloat (np_std y)) of
        Inl e \<Rightarrow> Inl e
      | Inr m \<Rightarrow> Inr (m ^ 2 * (1 / 10)))"

subsection \<open>The estimator object, fit and predict\<close>

text \<open>
  The hyper-parameters that \<^verbatim>\<open>BaseRVM.__init__\<close> stores (lines 33--42) are the fields of
  the record; \<open>fitted\<close> holds the attributes assigned later, by name.
\<close>
record estimator =
  kernel :: string
  degree :: int
  gamma :: pyval
  coef0 :: real
  tol :: real
  threshold_alpha :: real
  class_weight :: pyval
  max_iter :: int
  verbose :: bool
  random_state :: pyval
  fitted :: "string \<rightharpoonup> pyval"

text \<open>Python's \<^verbatim>\<open>gamma == 0\<close>.\<close>
fun py_eq_zero :: "pyval \<Rightarrow> bool" where
  "py_eq_zero (PInt i) = (i = 0)"
| "py_eq_zero (PFloat r) = (r = 0)"
| "py_eq_zero (PBool b) = (\<not> b)"
| "py_eq_zero PNone = False"
| "py_eq_zero (PStr s) = False"
| "py_eq_zero (PVec v) = False"
| "py_eq_zero (PMat m) = False"

text \<open>Lines 24--42 and 122--129: the constructor.\<close>
definition RVR_init ::
  "string \<Rightarrow> int \<Rightarrow> pyval \<Rightarrow> real \<Rightarrow> real \<Rightarrow> real \<Rightarrow> int \<Rightarrow> bool \<Rightarrow> error + estimator" where
  "RVR_init kernel' degree' gamma' coef0' tol' threshold_alpha' max_iter' verbose' =
     (if py_eq_zero gamma' then Inl ValueError
      else Inr \<lparr>kernel = kernel', degree = degree', gamma = gamma', coef0 = coef0',
                tol = tol', threshold_alpha = threshold_alpha', class_weight = PNone,
                max_iter = max_iter', verbose = verbose', random_state = PNone,
                fitted = Map.empty\<rparr>)"

text \<open>\<^verbatim>\<open>hasattr(self, name)\<close> for the data attributes of the object.\<close>
definition hasattr :: "estimator \<Rightarrow> string \<Rightarrow> bool" where
  "hasattr est name =
     (name \<in> set [''kernel'', ''degree'', ''gamma'', ''coef0'', ''tol'', ''threshold_alpha'',
                   ''class_weight'', ''max_iter'', ''verbose'', ''random_state'']
      \<or> fitted est name \<noteq> None)"

text \<open>
  \<^verbatim>\<open>check_is_fitted(estimator, attributes)\<close> of scikit-learn: NotFittedError unless the
  estimator has every one of the named attributes.
\<close>
definition check_is_fitted :: "estimator \<Rightarrow> string list \<Rightarrow> error + unit" where
  "check_is_fitted est attributes =
     (if list_all (hasattr est) attributes then Inr () else Inl NotFittedError)"

text \<open>
  \<^verbatim>\<open>check_X_y(X, y, y_numeric=True, ensure_min_samples=2)\<close> of scikit-learn: ValueError
  for fewer than two samples, for rows of different lengths or without features, and for
  a target of another length.
\<close>
definition check_X_y :: "mat \<Rightarrow> vec \<Rightarrow> error + (mat \<times> vec)" where
  "check_X_y X y =
     (if length X < 2 then Inl ValueError
      else if list_ex (\<lambda>r. length r \<noteq> length (hd X)) X then Inl ValueError
      else if length (hd X) < 1 then Inl ValueError
      else if length y \<noteq> length X then Inl ValueError
      else Inr (X, y))"

text \<open>\<^verbatim>\<open>check_array(X)\<close> of scikit-learn, with its default minimum of one sample.\<close>
definition check_array :: "mat \<Rightarrow> error + mat" where
  "check_array X =
     (if length X < 1 then Inl ValueError
      else if list_ex (\<lambda>r. length r \<noteq> length (hd X)) X then Inl ValueError
      else if length (hd X) < 1 then Inl ValueError
      else Inr X)"

text \<open>Lines 321--327: the four attributes that \<^verbatim>\<open>fit\<close> assigns.\<close>
definition store_model :: "estimator \<Rightarrow> mat \<times> vec \<times> mat \<times> real \<Rightarrow> estimator" where
  "store_model est m =
     (case m of (relevance_vectors, mu_sel, Sigma_sel, sigma_squared) \<Rightarrow>
        est\<lparr>fitted := (fitted est)
              (''relevance_vectors_'' \<mapsto> PMat relevance_vectors,
               ''mu_'' \<mapsto> PVec mu_sel,
               ''Sigma_'' \<mapsto> PMat Sigma_sel,
               ''sigma_squared_'' \<mapsto> PFloat sigma_squared)\<rparr>)"

text \<open>
  Lines 188--327.  \<open>kern X Y\<close> is \<^verbatim>\<open>self._get_kernel(X, Y)\<close>, the pairwise kernel with
  the estimator's kernel parameters.
\<close>
definition fit ::
  "(mat \<Rightarrow> mat \<Rightarrow> mat) \<Rightarrow> (mat \<Rightarrow> error + mat) \<Rightarrow> (mat \<Rightarrow> mat) \<Rightarrow> estimator \<Rightarrow> mat \<Rightarrow> vec
   \<Rightarrow> error + estimator" where
  "fit kern inv_f pinv_f est X0 y0 =
     (case check_X_y X0 y0 of
        Inl e \<Rightarrow> Inl e
      | Inr (X, y) \<Rightarrow>
          (let n_samples = length X;
               K = map (\<lambda>r. 1 # r) (kern X X)
           in case init_sigma_squared y of
                Inl e \<Rightarrow> Inl e
              | Inr sigma_squared \<Rightarrow>
                  (case fit_body inv_f pinv_f (tol est) (threshold_alpha est)
                          (nat (max_iter est)) X K y sigma_squared of
                     Inl e \<Rightarrow> Inl e
                   | Inr m \<Rightarrow> Inr (store_model est m))))"

definition getattr :: "estimator \<Rightarrow> string \<Rightarrow> error + pyval" where
  "getattr est name =
     (case fitted est name of None \<Rightarrow> Inl AttributeError | Some v \<Rightarrow> Inr v)"

fun as_mat :: "error + pyval \<Rightarrow> error + mat" where
  "as_mat (Inl e) = Inl e"
| "as_mat (Inr (PMat m)) = Inr m"
| "as_mat (Inr v) = Inl TypeError"

fun as_vec :: "error + pyval \<Rightarrow> error + vec" where
  "as_vec (Inl e) = Inl e"
| "as_vec (Inr (PVec v)) = Inr v"
| "as_vec (Inr v) = Inl TypeError"

fun as_float :: "error + pyval \<Rightarrow> error + real" where
  "as_float (Inl e) = Inl e"
| "as_float (Inr (PFloat r)) = Inr r"
| "as_float (Inr v) = Inl TypeError"

text \<open>\<^verbatim>\<open>np.dot(K, v)\<close>: ValueError when the shapes are not aligned.\<close>
definition np_dot :: "mat \<Rightarrow> vec \<Rightarrow> error + vec" where
  "np_dot M v =
     (if list_all (\<lambda>r. length r = length v) M then Inr (mat_vec M v) else Inl ValueError)"

text \<open>
  Lines 354--367, the part of \<^verbatim>\<open>predict\<close> after the fitted check.  The result is \<open>y_mean\<close>
  with, when \<open>return_std\<close> holds, \<open>y_std\<close>; the diagonal of
  \<^verbatim>\<open>self.sigma_squared + K @ self.Sigma @ K.T\<close> is computed entry by entry.
\<close>
definition predict_body ::
  "(mat \<Rightarrow> mat \<Rightarrow> mat) \<Rightarrow> estimator \<Rightarrow> mat \<Rightarrow> bool \<Rightarrow> error + (vec \<times> vec option)" where
  "predict_body kern est X0 return_std =
     (case check_array X0 of
        Inl e \<Rightarrow> Inl e
      | Inr X \<Rightarrow>
         (case as_mat (getattr est ''relevance_vectors_'') of
            Inl e \<Rightarrow> Inl e
          | Inr relevance_vectors \<Rightarrow>
             (case as_vec (getattr est ''mu_'') of
                Inl e \<Rightarrow> Inl e
              | Inr mu_sel \<Rightarrow>
                 (let K0 = kern X relevance_vectors;
                      N_rv = length relevance_vectors;
                      K = (if length mu_sel \<noteq> N_rv then map (\<lambda>r. 1 # r) K0 else K0)
                  in case np_dot K mu_sel of
                       Inl e \<Rightarrow> Inl e
                     | Inr y_mean \<Rightarrow>
                        (if \<not> return_std then Inr (y_mean, None)
                         else
                           (case as_float (getattr est ''sigma_squared'') of
                              Inl e \<Rightarrow> Inl e
                            | Inr s2 \<Rightarrow>
                               (case as_mat (getattr est ''Sigma'') of
                                  Inl e \<Rightarrow> Inl e
                                | Inr Sig \<Rightarrow>
                                   Inr (y_mean,
                                        Some (map (\<lambda>r. sqrt (s2 + dot (vec_mat (length Sig) r Sig) r))
                                               K)))))))))"

text \<open>Lines 329--367: the fitted check of line 352, then the prediction.\<close>
definition predict ::
  "(mat \<Rightarrow> mat \<Rightarrow> mat) \<Rightarrow> estimator \<Rightarrow> mat \<Rightarrow> bool \<Rightarrow> error + (vec \<times> vec option)" where
  "predict kern est X0 return_std =
     (case check_is_fitted est [''relevance_vectors_'', ''mu_'', ''Sigma_'', ''sigma_squared''] of
        Inl e \<Rightarrow> Inl e
      | Inr u \<Rightarrow> predict_body kern est X0 return_std)"

text \<open>The state an outcome carries.\<close>
fun outcome_state :: "'a outcome \<Rightarrow> 'a" where
  "outcome_state (Break st) = st"
| "outcome_state (Continue st) = st"

subsection \<open>Concrete collaborators and inputs for the examples\<close>

text \<open>
  \<^verbatim>\<open>linalg.inv\<close> on the matrices the examples meet, those with at most two rows: the
  empty matrix is its own inverse, a singular matrix raises LinAlgError.
\<close>
definition inv_small :: "mat \<Rightarrow> error + mat" where
  "inv_small M =
     (case M of
        [] \<Rightarrow> Inr []
      | [[a]] \<Rightarrow> (if a = 0 then Inl LinAlgError else Inr [[1 / a]])
      | [[a, b], [c, d]] \<Rightarrow>
          (if a * d - b * c = 0 then Inl LinAlgError
           else Inr [[d / (a * d - b * c), - b / (a * d - b * c)],
                     [- c / (a * d - b * c), a / (a * d - b * c)]])
      | _ \<Rightarrow> Inl LinAlgError)"

text \<open>
  \<^verbatim>\<open>linalg.pinv\<close> on square matrices of rank at most one, which the singular matrices
  with at most two rows are: the transpose over the squared Frobenius norm.
\<close>
definition pinv_small :: "mat \<Rightarrow> mat" where
  "pinv_small M =
     map (map (\<lambda>x. x / sum_list (map (\<lambda>r. sum_list (map (\<lambda>x. x ^ 2) r)) M)))
       (transpose_m (length M) M)"

text \<open>The linear kernel \<^verbatim>\<open>X @ Y.T\<close>.\<close>
definition linear_kernel :: "mat \<Rightarrow> mat \<Rightarrow> mat" where
  "linear_kernel X Y = map (\<lambda>x. map (\<lambda>y. dot x y) Y) X"

text \<open>\<^verbatim>\<open>RVR()\<close> with the default arguments of line 122.\<close>
definition default_RVR :: estimator where
  "default_RVR =
     \<lparr>kernel = ''rbf'', degree = 3, gamma = PStr ''auto_deprecated'', coef0 = 0,
      tol = 1 / 10 ^ 6, threshold_alpha = 10 ^ 5, class_weight = PNone,
      max_iter = 5000, verbose = False, random_state = PNone, fitted = Map.empty\<rparr>"

text \<open>
  A training set of two samples for the linear kernel: \<open>ex_K\<close> is the kernel matrix of
  \<open>ex_X\<close> with the bias column in front, and \<open>2 / 5\<close> is the tenth of the variance of
  \<open>ex_y\<close>.  \<open>ex_st0\<close> is the state before the first pass of the loop and \<open>ex_st1\<close>,
  \<open>ex_st2\<close>, ... are the states after each pass.
\<close>
definition ex_X :: mat where "ex_X = [[1], [2]]"
definition ex_K :: mat where "ex_K = [[1, 1, 2], [1, 2, 4]]"
definition ex_y :: vec where "ex_y = [3, - 1]"

text \<open>The default tolerance of line 123.\<close>
definition ex_tol :: real where "ex_tol = 1 / 10 ^ 6"

definition ex_st0 :: loop_state where
  "ex_st0 =
    \<lparr>st_alpha = [5 / 4, 100000000000000000000, 100000000000000000000],
     st_used_cond = [True, False, False],
     st_Sigma = [[4 / 25]],
     st_mu = [4 / 5],
     st_s = [5, 700000000000000000000 / 199999999999999999993,
        700000000000000000000 / 49999999999999999993],
     st_q = [5, - (700000000000000000000 / 199999999999999999993),
        - (350000000000000000000 / 49999999999999999993)],
     st_Phi = [[1], [1]],
     st_sigma_squared = 2 / 5,
     st_queue = [0, 1, 2]\<rparr>"

definition ex_st1 :: loop_state where
  "ex_st1 =
    \<lparr>st_alpha = [5 / 4, 100000000000000000000, 100000000000000000000],
     st_used_cond = [True, False, False],
     st_Sigma = [[404 / 625]],
     st_mu = [24 / 125],
     st_s = [30 / 101, 155100000000000000000000 / 252499999999999999998449,
        155100000000000000000000 / 63124999999999999998449],
     st_q = [30 / 101, 15900000000000000000000 / 252499999999999999998449,
        7950000000000000000000 / 63124999999999999998449],
     st_Phi = [[1], [1]],
     st_sigma_squared = 101 / 15,
     st_queue = [1, 2, 0]\<rparr>"

definition ex_st2 :: loop_state where
  "ex_st2 =
    \<lparr>st_alpha = [5 / 4, 100000000000000000000, 100000000000000000000],
     st_used_cond = [True, False, False],
     st_Sigma = [[290804 / 476505]],
     st_mu = [22600 / 95301],
     st_s = [28250 / 72701, 94117700000000000000000000 / 123172942239999999999058823,
        94117700000000000000000000 / 30793235559999999999058823],
     st_q = [28250 / 72701, 20717420000000000000000000 / 369518826719999999997176469,
        10358710000000000000000000 / 92379706679999999997176469],
     st_Phi = [[1], [1]],
     st_sigma_squared = 72701 / 14125,
     st_queue = [2, 0, 1]\<rparr>"

definition ex_st3 :: loop_state where
  "ex_st3 =
    \<lparr>st_alpha = [5 / 4, 100000000000000000000, 100000000000000000000],
     st_used_cond = [True, False, False],
     st_Sigma = [[166458231220 / 272115823433]],
     st_mu = [64043034408 / 272115823433],
     st_s = [16010758602 / 41614557805,
        858485238282189185202900000000000000000000 / 1132397966390775204447915147617178108147971,
        858485238282189185202900000000000000000000 / 283099491597693801105540147617178108147971],
     st_q = [16010758602 / 41614557805,
        64032403431600699390900000000000000000000 / 1132397966390775204447915147617178108147971,
        32016201715800349695450000000000000000000 / 283099491597693801105540147617178108147971],
     st_Phi = [[1], [1]],
     st_sigma_squared = 41614557805 / 8005379301,
     st_queue = [0, 1, 2]\<rparr>"

definition ex_st4 :: loop_state where
  "ex_st4 =
    \<lparr>st_alpha = [100000000000000000000, 100000000000000000000, 100000000000000000000],
     st_used_cond = [False, False, False],
     st_Sigma = [],
     st_mu = [],
     st_s = [100000000000000000000 / 249999999999999999999,
        100000000000000000000 / 99999999999999999999,
        100000000000000000000 / 24999999999999999999],
     st_q = [100000000000000000000 / 249999999999999999999,
        20000000000000000000 / 99999999999999999999,
        10000000000000000000 / 24999999999999999999],
     st_Phi = [[], []],
     st_sigma_squared = 5,
     st_queue = [1, 2, 0]\<rparr>"

definition ex_st5 :: loop_state where
  "ex_st5 =
    \<lparr>st_alpha = [100000000000000000000, 100000000000000000000, 100000000000000000000],
     st_used_cond = [False, False, False],
     st_Sigma = [],
     st_mu = [],
     st_s = [100000000000000000000 / 249999999999999999999,
        100000000000000000000 / 99999999999999999999,
        100000000000000000000 / 24999999999999999999],
     st_q = [100000000000000000000 / 249999999999999999999,
        20000000000000000000 / 99999999999999999999,
        10000000000000000000 / 24999999999999999999],
     st_Phi = [[], []],
     st_sigma_squared = 5,
     st_queue = [2, 0, 1]\<rparr>"

definition ex_st6 :: loop_state where
  "ex_st6 =
    \<lparr>st_alpha = [100000000000000000000, 100000000000000000000, 100000000000000000000],
     st_used_cond = [False, False, False],
     st_Sigma = [],
     st_mu = [],
     st_s = [100000000000000000000 / 249999999999999999999,
        100000000000000000000 / 99999999999999999999,
        100000000000000000000 / 24999999999999999999],
     st_q = [100000000000000000000 / 249999999999999999999,
        20000000000000000000 / 99999999999999999999,
        10000000000000000000 / 24999999999999999999],
     st_Phi = [[], []],
     st_sigma_squared = 5,
     st_queue = [0, 1, 2]\<rparr>"

text \<open>\<^verbatim>\<open>linalg.inv\<close> raises nothing but LinAlgError.\<close>
definition only_LinAlgError :: "(mat \<Rightarrow> error + mat) \<Rightarrow> bool" where
  "only_LinAlgError inv_f = (\<forall>M e. inv_f M = Inl e \<longrightarrow> e = LinAlgError)"

text \<open>
  The convergence condition in the words of the specification: the action was a
  re-estimation, the change of the logarithm of the candidate's precision is below the
  tolerance, and no inactive candidate has a positive \<open>theta = q\<^sup>2 - s\<close>.
\<close>
definition spec_converged ::
  "real \<Rightarrow> bool \<Rightarrow> real \<Rightarrow> real \<Rightarrow> vec \<Rightarrow> vec \<Rightarrow> bool list \<Rightarrow> bool" where
  "spec_converged eps reestimated alpha_new alpha_old q s active =
     (reestimated \<and> ln alpha_new - ln alpha_old < eps \<and>
      list_all (\<lambda>j. active ! j \<or> (q ! j) ^ 2 - s ! j \<le> 0) [0..<length active])"

text \<open>A state in which the re-estimation of the bias changes nothing and no candidate is pending.\<close>
definition ex_conv :: loop_state where
  "ex_conv =
     \<lparr>st_alpha = [2, INFINITY, INFINITY], st_used_cond = [True, False, False],
      st_Sigma = [[1]], st_mu = [0], st_s = [2, 1, 1], st_q = [2, 0, 0],
      st_Phi = [[1], [1]], st_sigma_squared = 1, st_queue = [0, 1, 2]\<rparr>"

text \<open>A state with four candidates, one for each case of the action, to be tried in any order.\<close>
definition ex_sel :: "nat list \<Rightarrow> loop_state" where
  "ex_sel order =
     \<lparr>st_alpha = [1, INFINITY, 2, INFINITY], st_used_cond = [True, False, True, False],
      st_Sigma = [[1, 0], [0, 1]], st_mu = [0, 0], st_s = [1, 1, 1, 1], st_q = [2, 2, 0, 0],
      st_Phi = [[1, 1], [1, 1], [1, 1]], st_sigma_squared = 1, st_queue = order\<rparr>"

text \<open>A state whose first candidate has \<open>s = 0\<close> and \<open>q = 1\<close>.\<close>
definition ex_zero :: loop_state where
  "ex_zero =
     \<lparr>st_alpha = [1, INFINITY, INFINITY], st_used_cond = [True, False, False],
      st_Sigma = [[1]], st_mu = [0], st_s = [0, 1, 1], st_q = [1, 0, 0],
      st_Phi = [[1], [1]], st_sigma_squared = 1, st_queue = [0, 1, 2]\<rparr>"


text \<open>
  The state before the first pass for the targets \<open>[-2, 3]\<close> on \<open>ex_K\<close>, with the first noise
  variance \<open>0.1 * var(y) = 5 / 8\<close>: the precision of the bias is negative.
\<close>
definition ex_neg :: loop_state where
  "ex_neg =
    \<lparr>st_alpha = [- 16, 100000000000000000000, 100000000000000000000],
     st_used_cond = [True, False, False],
     st_Sigma = [[- (5 / 64)]],
     st_mu = [- (1 / 8)],
     st_s = [16 / 5, 4900000000000000000000 / 499999999999999999951, 4900000000000000000000 / 124999999999999999951],
     st_q = [8 / 5, 3500000000000000000000 / 499999999999999999951, 1750000000000000000000 / 124999999999999999951],
     st_Phi = [[1], [1]],
     st_sigma_squared = 5 / 8,
     st_queue = [0, 1, 2]\<rparr>"

section \<open>Properties\<close>

subsection \<open>Auxiliary facts\<close>

lemma sum_sq_nonneg: "0 \<le> sum_list (map (\<lambda>x. x ^ 2) (v::real list))"
  by (induction v) auto

lemma norm_sq: "(linalg_norm v) ^ 2 = sum_list (map (\<lambda>x. x ^ 2) v)"
  unfolding linalg_norm_def using sum_sq_nonneg by simp

lemmas la_defs = dot_def column_def transpose_m_def mat_vec_def vec_mat_def mat_mul_def
  scale_def mat_add_def np_diag_def diagonal_def identity_def mask_select_def count_true_def
  precision_matrix_def posterior_mean_def QS_def invert_def

lemma small_lists:
  "[0..<3] = [0, 1, 2]" "[0..<2] = [0, 1]" "[0..<1] = [0]" "[0..<2 + 1] = [0, 1, 2]"
  "replicate (2 + 1) x = [x, x, x]" "replicate 3 x = [x, x, x]" "replicate 2 x = [x, x]"
  by (simp_all add: upt_rec numeral_3_eq_3 numeral_2_eq_2)

lemma default_RVR_init:
  "RVR_init ''rbf'' 3 (PStr ''auto_deprecated'') 0 (1 / 10 ^ 6) (10 ^ 5) 5000 False
     = Inr default_RVR"
  by (simp add: RVR_init_def default_RVR_def)

lemma RVR_init_fitted: "RVR_init k d g c t a m v = Inr est \<Longrightarrow> fitted est = Map.empty"
  by (auto simp: RVR_init_def split: if_splits)

lemma invert_not_LinAlgError: "invert inv_f pinv_f tmp \<noteq> Inl LinAlgError"
  by (simp add: invert_def split: sum.splits)

lemma estimate_noise_not_LinAlgError:
  "estimate_noise inv_f pinv_f K alpha used_cond y n sigma_squared \<noteq> Inl LinAlgError"
proof -
  have "invert inv_f pinv_f (precision_matrix K alpha used_cond sigma_squared) \<noteq> Inl LinAlgError"
    by (rule invert_not_LinAlgError)
  then show ?thesis
    by (auto simp: estimate_noise_def Let_def split: sum.splits)
qed

lemma calculate_statistics_not_LinAlgError:
  "calculate_statistics inv_f pinv_f K alpha used_cond y sigma_squared \<noteq> Inl LinAlgError"
proof -
  have "invert inv_f pinv_f (precision_matrix K alpha used_cond sigma_squared) \<noteq> Inl LinAlgError"
    by (rule invert_not_LinAlgError)
  then show ?thesis
    by (auto simp: calculate_statistics_def Let_def split: sum.splits)
qed

lemma math_log_not_LinAlgError: "math_log x \<noteq> Inl LinAlgError"
  by (simp add: math_log_def)

lemma iteration_not_LinAlgError:
  "iteration inv_f pinv_f eps K y n st \<noteq> Inl LinAlgError"
  using estimate_noise_not_LinAlgError calculate_statistics_not_LinAlgError
    math_log_not_LinAlgError
  by (auto simp: iteration_def Let_def split: list.splits sum.splits prod.splits if_splits)

lemma run_loop_not_LinAlgError:
  "run_loop inv_f pinv_f eps K y n k st \<noteq> Inl LinAlgError"
proof (induction k arbitrary: st)
  case 0
  show ?case by simp
next
  case (Suc k)
  show ?case
    using iteration_not_LinAlgError [of inv_f pinv_f eps K y n st] Suc.IH
    by (auto split: sum.splits outcome.splits)
qed

lemma initial_state_not_LinAlgError:
  "initial_state inv_f pinv_f K y n sigma_squared \<noteq> Inl LinAlgError"
  using calculate_statistics_not_LinAlgError
  by (auto simp: initial_state_def Let_def split: sum.splits prod.splits)

lemma extract_model_not_LinAlgError: "extract_model X thr st \<noteq> Inl LinAlgError"
  by (auto simp: extract_model_def bool_index_def Let_def split: sum.splits if_splits)

subsection \<open>C1: predict and the fitted attributes\<close>

text \<open>
  C1 (the code departs from the claim).  \<^verbatim>\<open>predict\<close> asks \<^verbatim>\<open>check_is_fitted\<close> for an
  attribute named \<^verbatim>\<open>sigma_squared\<close>, while \<^verbatim>\<open>fit\<close> assigns \<^verbatim>\<open>sigma_squared_\<close>.  So
  predict raises NotFittedError on a freshly constructed estimator, as the claim says,
  and also on the estimator that carries the four attributes lines 321--327 assign, for
  every fitted model \<open>m\<close> and every input, where the claim promises the mean prediction.
  The same two names, \<^verbatim>\<open>self.sigma_squared\<close> and \<^verbatim>\<open>self.Sigma\<close> in line 365, make the
  lines after the check raise on that estimator whenever the standard deviation is asked
  for.
\<close>
theorem predict_raises_NotFitted_after_fit:
  "predict kern default_RVR Xnew return_std = Inl NotFittedError \<and>
   predict kern (store_model default_RVR m) Xnew return_std = Inl NotFittedError \<and>
   (predict_body kern (store_model default_RVR m) Xnew True = Inl ValueError \<or>
    predict_body kern (store_model default_RVR m) Xnew True = Inl AttributeError)"
proof -
  obtain rv mu_sel Sigma_sel s2 where m: "m = (rv, mu_sel, Sigma_sel, s2)"
    by (cases m) auto
  have chk: "predict kern default_RVR Xnew return_std = Inl NotFittedError"
    "predict kern (store_model default_RVR m) Xnew return_std = Inl NotFittedError"
    by (simp_all add: m predict_def check_is_fitted_def hasattr_def store_model_def
        default_RVR_def)
  have std: "predict_body kern (store_model default_RVR m) Xnew True = Inl ValueError \<or>
    predict_body kern (store_model default_RVR m) Xnew True = Inl AttributeError"
    by (auto simp: m predict_body_def getattr_def store_model_def default_RVR_def
        check_array_def np_dot_def Let_def split: sum.splits if_splits)
  show ?thesis
    using chk std by blast
qed

subsection \<open>C2: the first noise variance\<close>

text \<open>
  C2 (the code departs from the claim).  Line 216 calls \<^verbatim>\<open>np.max(1e-6, np.std(y))\<close>:
  the standard deviation is passed as the axis of a scalar, which raises TypeError for
  every target vector.  No noise variance is produced, and \<^verbatim>\<open>fit\<close> ends in an exception
  for every input: ValueError from the validation or this TypeError.
\<close>
theorem init_sigma_squared_raises:
  "init_sigma_squared y = Inl TypeError \<and>
   (fit kern inv_f pinv_f est X y = Inl ValueError \<or>
    fit kern inv_f pinv_f est X y = Inl TypeError)"
  by (auto simp: init_sigma_squared_def fit_def check_X_y_def Let_def split: if_splits)

subsection \<open>C9: inverting the precision matrix\<close>

text \<open>
  C9.  A matrix with exactly one row is inverted by the reciprocal of its entry.  Any
  other matrix goes to \<^verbatim>\<open>linalg.inv\<close>; its result is used when it succeeds, and when
  it raises LinAlgError the pseudo-inverse is used instead.  Hence neither the statistics
  computation nor the body of \<^verbatim>\<open>fit\<close> ever ends in LinAlgError.
\<close>
theorem invert_fallback:
  "(length tmp = 1 \<longrightarrow> invert inv_f pinv_f tmp = Inr (map (map (\<lambda>x. 1 / x)) tmp)) \<and>
   (length tmp \<noteq> 1 \<longrightarrow> (\<forall>M. inv_f tmp = Inr M \<longrightarrow> invert inv_f pinv_f tmp = Inr M)) \<and>
   (length tmp \<noteq> 1 \<longrightarrow> inv_f tmp = Inl LinAlgError \<longrightarrow>
      invert inv_f pinv_f tmp = Inr (pinv_f tmp)) \<and>
   calculate_statistics inv_f pinv_f K alpha used_cond y sigma_squared \<noteq> Inl LinAlgError \<and>
   estimate_noise inv_f pinv_f K alpha used_cond y n sigma_squared \<noteq> Inl LinAlgError \<and>
   fit_body inv_f pinv_f eps thr n_iter X K y sigma_squared \<noteq> Inl LinAlgError"
proof -
  have "fit_body inv_f pinv_f eps thr n_iter X K y sigma_squared \<noteq> Inl LinAlgError"
    using initial_state_not_LinAlgError [of inv_f pinv_f K y "length X" sigma_squared]
      run_loop_not_LinAlgError [of inv_f pinv_f eps K y "length X" n_iter]
      extract_model_not_LinAlgError [of X thr]
    by (auto simp: fit_body_def fit_loop_def split: sum.splits)
  then show ?thesis
    using calculate_statistics_not_LinAlgError [of inv_f pinv_f K alpha used_cond y sigma_squared]
      estimate_noise_not_LinAlgError [of inv_f pinv_f K alpha used_cond y n sigma_squared]
    by (simp add: invert_def)
qed

theorem invert_fallback_witness:
  "length [[2::real]] = 1 \<and>
   invert inv_small pinv_small [[2]] = Inr [[1 / 2]] \<and>
   length [[1, 0], [0, 2::real]] \<noteq> 1 \<and>
   inv_small [[1, 0], [0, 2]] = Inr [[1, 0], [0, 1 / 2]] \<and>
   invert inv_small pinv_small [[1, 0], [0, 2]] = Inr [[1, 0], [0, 1 / 2]] \<and>
   length [[1, 2], [2, 4::real]] \<noteq> 1 \<and>
   inv_small [[1, 2], [2, 4]] = Inl LinAlgError \<and>
   invert inv_small pinv_small [[1, 2], [2, 4]] = Inr [[1 / 25, 2 / 25], [2 / 25, 4 / 25]]"
  using invert_fallback [of "[[2]]" inv_small pinv_small]
    invert_fallback [of "[[1, 0], [0, 2]]" inv_small pinv_small]
    invert_fallback [of "[[1, 2], [2, 4]]" inv_small pinv_small]
  by (simp add: inv_small_def pinv_small_def transpose_m_def column_def small_lists)

subsection \<open>A run of the loop on the example\<close>

lemma ex_K_kernel: "map (\<lambda>r. 1 # r) (linear_kernel ex_X ex_X) = ex_K"
  by (simp add: linear_kernel_def ex_X_def ex_K_def dot_def)

lemma ex_seed: "(max (1 / 10 ^ 6) (np_std ex_y)) ^ 2 * (1 / 10) = 2 / 5"
proof -
  have "np_std ex_y = sqrt 4"
    by (simp add: np_std_def np_mean_def ex_y_def)
  then have "np_std ex_y = 2"
    by simp
  then show ?thesis
    by simp
qed

lemma ex_init: "initial_state inv_small pinv_small ex_K ex_y 2 (2 / 5) = Inr ex_st0"
  by (simp add: initial_state_def calculate_statistics_def la_defs ex_K_def ex_y_def norm_sq
      Let_def small_lists power_divide INFINITY_def ex_st0_def)

lemma ex_pass1:
  "iteration inv_small pinv_small ex_tol ex_K ex_y 2 ex_st0 = Inr (Continue ex_st1)"
  by (simp add: iteration_def select_action_def converged_def math_log_def estimate_noise_def
      calculate_statistics_def la_defs ex_K_def ex_y_def norm_sq inv_small_def
      Let_def small_lists power_divide INFINITY_def ex_tol_def
      ex_st0_def ex_st1_def)

lemma ex_pass2:
  "iteration inv_small pinv_small ex_tol ex_K ex_y 2 ex_st1 = Inr (Continue ex_st2)"
  by (simp add: iteration_def select_action_def converged_def math_log_def estimate_noise_def
      calculate_statistics_def la_defs ex_K_def ex_y_def norm_sq inv_small_def
      Let_def small_lists power_divide INFINITY_def ex_tol_def
      ex_st1_def ex_st2_def)

lemma ex_pass3:
  "iteration inv_small pinv_small ex_tol ex_K ex_y 2 ex_st2 = Inr (Continue ex_st3)"
  by (simp add: iteration_def select_action_def converged_def math_log_def estimate_noise_def
      calculate_statistics_def la_defs ex_K_def ex_y_def norm_sq inv_small_def
      Let_def small_lists power_divide INFINITY_def ex_tol_def
      ex_st2_def ex_st3_def)

lemma ex_pass4:
  "iteration inv_small pinv_small ex_tol ex_K ex_y 2 ex_st3 = Inr (Continue ex_st4)"
  by (simp add: iteration_def select_action_def converged_def math_log_def estimate_noise_def
      calculate_statistics_def la_defs ex_K_def ex_y_def norm_sq inv_small_def
      Let_def small_lists power_divide INFINITY_def ex_tol_def
      ex_st3_def ex_st4_def)

lemma ex_pass5:
  "iteration inv_small pinv_small ex_tol ex_K ex_y 2 ex_st4 = Inr (Continue ex_st5)"
  by (simp add: iteration_def select_action_def converged_def math_log_def estimate_noise_def
      calculate_statistics_def la_defs ex_K_def ex_y_def norm_sq inv_small_def
      Let_def small_lists power_divide INFINITY_def ex_tol_def
      ex_st4_def ex_st5_def)

lemma ex_pass6:
  "iteration inv_small pinv_small ex_tol ex_K ex_y 2 ex_st5 = Inr (Continue ex_st6)"
  by (simp add: iteration_def select_action_def converged_def math_log_def estimate_noise_def
      calculate_statistics_def la_defs ex_K_def ex_y_def norm_sq inv_small_def
      Let_def small_lists power_divide INFINITY_def ex_tol_def
      ex_st5_def ex_st6_def)

lemma ex_pass7:
  "iteration inv_small pinv_small ex_tol ex_K ex_y 2 ex_st6 = Inr (Continue ex_st4)"
  by (simp add: iteration_def select_action_def converged_def math_log_def estimate_noise_def
      calculate_statistics_def la_defs ex_K_def ex_y_def norm_sq inv_small_def
      Let_def small_lists power_divide INFINITY_def ex_tol_def
      ex_st6_def ex_st4_def)

lemma ex_four_passes:
  "run_loop inv_small pinv_small ex_tol ex_K ex_y 2 (4 + k) ex_st0 =
   run_loop inv_small pinv_small ex_tol ex_K ex_y 2 k ex_st4"
proof -
  have e: "4 + k = Suc (Suc (Suc (Suc k)))"
    by simp
  show ?thesis
    unfolding e by (simp add: ex_pass1 ex_pass2 ex_pass3 ex_pass4)
qed

lemma ex_cycle:
  "st \<in> {ex_st4, ex_st5, ex_st6} \<Longrightarrow>
   run_loop inv_small pinv_small ex_tol ex_K ex_y 2 k st \<in> Inr ` {ex_st4, ex_st5, ex_st6}"
proof (induction k arbitrary: st)
  case 0
  then show ?case by auto
next
  case (Suc k)
  from Suc.prems consider "st = ex_st4" | "st = ex_st5" | "st = ex_st6"
    by auto
  then show ?case
  proof cases
    case 1
    then show ?thesis using Suc.IH [of ex_st5] by (simp add: ex_pass5)
  next
    case 2
    then show ?thesis using Suc.IH [of ex_st6] by (simp add: ex_pass6)
  next
    case 3
    then show ?thesis using Suc.IH [of ex_st4] by (simp add: ex_pass7)
  qed
qed

lemma ex_fit_loop:
  "fit_loop inv_small pinv_small ex_tol (4 + k) ex_K ex_y 2 (2 / 5)
     \<in> Inr ` {ex_st4, ex_st5, ex_st6}"
  using ex_cycle [of ex_st4 k] by (simp add: fit_loop_def ex_init ex_four_passes)

lemma ex_extract:
  "st \<in> {ex_st4, ex_st5, ex_st6} \<Longrightarrow> extract_model ex_X thr st = Inl IndexError"
  by (auto simp: extract_model_def bool_index_def mask_select_def ex_X_def
      ex_st4_def ex_st5_def ex_st6_def)

subsection \<open>The mask during the loop and in the extraction\<close>

text \<open>
  The mask keeps its length \<open>n_samples + 1\<close> through the loop, so the number of active bases
  never exceeds it.  The extraction of lines 311--327 succeeds when the bias is active, and
  then selects the rows of \<open>X\<close> that are active with a precision below the threshold; it
  raises IndexError when the bias is not active.
\<close>

lemma count_true_le: "count_true ms \<le> length ms"
  by (simp add: count_true_def)

lemma select_action_lengths:
  "select_action alpha used_cond s q theta i = (alpha', used', re) \<Longrightarrow>
   length alpha' = length alpha \<and> length used' = length used_cond"
  by (auto simp: select_action_def split: if_splits)

lemma iteration_lengths:
  assumes "iteration inv_f pinv_f eps K y n st = Inr r"
  shows "length (st_used_cond (outcome_state r)) = length (st_used_cond st) \<and>
         length (st_alpha (outcome_state r)) = length (st_alpha st)"
  using assms select_action_lengths
  by (auto simp: iteration_def Let_def split: list.splits sum.splits prod.splits if_splits)

lemma run_loop_lengths:
  "run_loop inv_f pinv_f eps K y n k st = Inr st' \<Longrightarrow>
   length (st_used_cond st') = length (st_used_cond st) \<and>
   length (st_alpha st') = length (st_alpha st)"
proof (induction k arbitrary: st)
  case 0
  then show ?case by simp
next
  case (Suc k)
  show ?case
  proof (cases "iteration inv_f pinv_f eps K y n st")
    case (Inl e)
    then show ?thesis using Suc.prems by simp
  next
    case (Inr r)
    note len = iteration_lengths [OF Inr]
    show ?thesis
    proof (cases r)
      case (Break b)
      then show ?thesis using Suc.prems Inr len by simp
    next
      case (Continue c)
      then show ?thesis using Suc.prems Inr len Suc.IH [of c] by simp
    qed
  qed
qed

lemma initial_state_lengths:
  "initial_state inv_f pinv_f K y n sigma_squared = Inr st \<Longrightarrow>
   length (st_used_cond st) = n + 1 \<and> length (st_alpha st) = n + 1"
  by (auto simp: initial_state_def Let_def split: sum.splits prod.splits)

lemma active_count_bounded:
  assumes "fit_loop inv_f pinv_f eps n_iter K y n sigma_squared = Inr st"
  shows "length (st_used_cond st) = n + 1 \<and> count_true (st_used_cond st) \<le> n + 1"
proof -
  obtain st0 where i: "initial_state inv_f pinv_f K y n sigma_squared = Inr st0"
    and r: "run_loop inv_f pinv_f eps K y n n_iter st0 = Inr st"
    using assms by (auto simp: fit_loop_def split: sum.splits)
  have "length (st_used_cond st) = n + 1"
    using initial_state_lengths [OF i] run_loop_lengths [OF r] by simp
  then show ?thesis
    using count_true_le [of "st_used_cond st"] by simp
qed

lemma mask_select_twice:
  "length ms = length as \<Longrightarrow> length as = length xs \<Longrightarrow>
   mask_select (map P (mask_select ms as)) (mask_select ms xs) =
   mask_select (map2 (\<lambda>m a. m \<and> P a) ms as) xs"
  by (induction ms as xs rule: list_induct3) (auto simp: mask_select_def)

lemma length_mask_select:
  "length ms = length xs \<Longrightarrow> length (mask_select ms xs) = count_true ms"
  by (induction ms xs rule: list_induct2) (auto simp: mask_select_def count_true_def)

lemma count_true_Cons: "count_true (m # ms) = (if m then 1 else 0) + count_true ms"
  by (simp add: count_true_def)

lemma count_true_map_select:
  "length ms = length as \<Longrightarrow>
   count_true (map P (mask_select ms as)) = count_true (map2 (\<lambda>m a. m \<and> P a) ms as)"
  by (induction ms as rule: list_induct2) (auto simp: mask_select_def count_true_def)

lemma extract_model_with_bias:
  assumes "length (st_alpha st) = length X + 1"
      and "length (st_used_cond st) = length X + 1"
      and "st_used_cond st ! 0"
      and "length (st_mu st) = count_true (st_used_cond st)"
      and "length (st_Sigma st) = count_true (st_used_cond st)"
      and "sel = map2 (\<lambda>m a. m \<and> a < thr) (tl (st_used_cond st)) (tl (st_alpha st))"
  shows "\<exists>mu_sel Sigma_sel.
           extract_model X thr st = Inr (mask_select sel X, mu_sel, Sigma_sel, st_sigma_squared st) \<and>
           length mu_sel = (if st_alpha st ! 0 < thr then 1 else 0) + length (mask_select sel X) \<and>
           length Sigma_sel = length mu_sel"
proof -
  obtain u us where u: "st_used_cond st = u # us"
    using assms(2) by (cases "st_used_cond st") auto
  obtain a as where a: "st_alpha st = a # as"
    using assms(1) by (cases "st_alpha st") auto
  have lens: "length us = length as" "length as = length X"
    using assms(1,2) u a by simp_all
  have ut: "u"
    using assms(3) u by simp
  let ?cb = "map (\<lambda>a. a < thr) (mask_select us as)"
  have rv: "mask_select ?cb (mask_select us X) = mask_select sel X"
    using mask_select_twice [OF lens, of "\<lambda>a. a < thr"] assms(6) u a by simp
  have l1: "length (mask_select us as) = count_true us" "length (mask_select us X) = count_true us"
    using length_mask_select [of us as] length_mask_select [of us X] lens by simp_all
  have cnt: "count_true ?cb = length (mask_select sel X)"
    using count_true_map_select [OF lens(1), of "\<lambda>a. a < thr"] length_mask_select [of sel X]
      assms(6) u a lens by simp
  have lm: "length ((a < thr) # ?cb) = length (st_mu st)"
    "length ((a < thr) # ?cb) = length (st_Sigma st)"
    using assms(4,5) u ut l1 by (simp_all add: count_true_Cons)
  have ex: "extract_model X thr st =
      Inr (mask_select sel X, mask_select ((a < thr) # ?cb) (st_mu st),
           map (mask_select ((a < thr) # ?cb)) (mask_select ((a < thr) # ?cb) (st_Sigma st)),
           st_sigma_squared st)"
    using lens l1 lm rv u a by (simp add: extract_model_def bool_index_def Let_def)
  have lmu: "length (mask_select ((a < thr) # ?cb) (st_mu st)) =
      (if a < thr then 1 else 0) + length (mask_select sel X)"
    using length_mask_select [OF lm(1)] cnt by (simp add: count_true_Cons)
  have lsg: "length (mask_select ((a < thr) # ?cb) (st_Sigma st)) =
      (if a < thr then 1 else 0) + length (mask_select sel X)"
    using length_mask_select [OF lm(2)] cnt by (simp add: count_true_Cons)
  show ?thesis
    using ex lmu lsg a by simp
qed

lemma extract_model_without_bias:
  assumes "length (st_alpha st) = length X + 1"
      and "length (st_used_cond st) = length X + 1"
      and "\<not> st_used_cond st ! 0"
      and "length (st_mu st) = count_true (st_used_cond st)"
  shows "extract_model X thr st = Inl IndexError"
proof -
  obtain u us where u: "st_used_cond st = u # us"
    using assms(2) by (cases "st_used_cond st") auto
  obtain a as where a: "st_alpha st = a # as"
    using assms(1) by (cases "st_alpha st") auto
  have lens: "length us = length as" "length as = length X"
    using assms(1,2) u a by simp_all
  have ut: "\<not> u"
    using assms(3) u by simp
  have l1: "length (mask_select us as) = count_true us" "length (mask_select us X) = count_true us"
    using length_mask_select [of us as] length_mask_select [of us X] lens by simp_all
  have "length (st_mu st) = count_true us"
    using assms(4) u ut by (simp add: count_true_Cons)
  then show ?thesis
    using lens l1 u a by (simp add: extract_model_def bool_index_def Let_def)
qed

subsection \<open>C5: the active mask at the end of the loop\<close>

text \<open>
  C5 (the code departs from the claim).  The delete action of lines 263--265 applies to the
  bias as to any other candidate (the comment above it reads "TODO: prevent bias to be
  deleted").  On the example, with the tolerance \<open>1e-6\<close> and the first noise variance
  \<open>0.1 * var(y) = 2 / 5\<close>, the fourth pass deletes the bias, the only active basis, and
  no later pass adds a basis: for every \<open>max_iter\<close> of at least four the loop ends with an
  active mask that is entirely false.
\<close>
theorem loop_leaves_mask_all_false:
  "\<exists>st. fit_loop inv_small pinv_small ex_tol (4 + k) ex_K ex_y 2 (2 / 5) = Inr st \<and>
        st_used_cond st = [False, False, False] \<and>
        count_true (st_used_cond st) = 0"
  using ex_fit_loop [of k]
  by (auto simp: count_true_def ex_st4_def ex_st5_def ex_st6_def)

subsection \<open>C6: the extracted model\<close>

text \<open>
  C6 (the code departs from the claim).  The selection mask of line 323 has one entry for
  the bias and one for each active non-bias basis, while \<open>mu\<close> and \<open>Sigma\<close> have one entry
  for each active basis.  When the bias is not active the mask is one entry longer than
  \<open>mu\<close>, and line 325 raises IndexError: so it is on the example, for every \<open>max_iter\<close>
  of at least four, and so it is on a state with the bias deleted and one basis active.
\<close>
theorem extract_model_raises_without_bias:
  "fit_body inv_small pinv_small ex_tol (10 ^ 5) (4 + k) ex_X ex_K ex_y (2 / 5)
     = Inl IndexError \<and>
   extract_model ex_X (10 ^ 5)
     \<lparr>st_alpha = [INFINITY, 2, INFINITY], st_used_cond = [False, True, False],
      st_Sigma = [[1 / 4]], st_mu = [1 / 2], st_s = [1, 1, 1], st_q = [0, 2, 0],
      st_Phi = [[1], [2]], st_sigma_squared = 1, st_queue = [0, 1, 2]\<rparr>
     = Inl IndexError"
proof -
  have "length ex_X = 2"
    by (simp add: ex_X_def)
  then have "fit_body inv_small pinv_small ex_tol (10 ^ 5) (4 + k) ex_X ex_K ex_y (2 / 5)
     = Inl IndexError"
    using ex_fit_loop [of k] ex_extract [of _ "10 ^ 5"]
    by (auto simp: fit_body_def)
  then show ?thesis
    by (simp add: extract_model_def bool_index_def mask_select_def ex_X_def INFINITY_def)
qed

subsection \<open>Facts about a pass of the loop\<close>

lemma inv_small_only_LinAlgError: "only_LinAlgError inv_small"
  by (auto simp: only_LinAlgError_def inv_small_def split: list.splits if_splits)

lemma invert_total:
  "only_LinAlgError inv_f \<Longrightarrow> \<exists>S. invert inv_f pinv_f tmp = Inr S"
  by (auto simp: invert_def only_LinAlgError_def split: sum.splits)

lemma estimate_noise_total:
  "only_LinAlgError inv_f \<Longrightarrow>
   \<exists>v. estimate_noise inv_f pinv_f K alpha used_cond y n sigma_squared = Inr v"
  using invert_total [of inv_f pinv_f "precision_matrix K alpha used_cond sigma_squared"]
  by (auto simp: estimate_noise_def Let_def)

lemma calculate_statistics_total:
  "only_LinAlgError inv_f \<Longrightarrow>
   \<exists>v. calculate_statistics inv_f pinv_f K alpha used_cond y sigma_squared = Inr v"
  using invert_total [of inv_f pinv_f "precision_matrix K alpha used_cond sigma_squared"]
  by (auto simp: calculate_statistics_def Let_def)

lemma select_action_unchanged_mask:
  "select_action alpha used_cond s q theta i = (alpha', used', True) \<Longrightarrow> used' = used_cond"
  by (auto simp: select_action_def split: if_splits)

lemma mask_select_all:
  "length ms = length xs \<Longrightarrow>
   list_all P (mask_select ms xs) \<longleftrightarrow> (\<forall>j < length xs. ms ! j \<longrightarrow> P (xs ! j))"
proof (induction ms xs rule: list_induct2)
  case Nil
  then show ?case by (simp add: mask_select_def)
next
  case (Cons m ms x xs)
  then show ?case
    by (auto simp: mask_select_def less_Suc_eq_0_disj)
qed

lemma theta_nth:
  "j < length q \<Longrightarrow> j < length s \<Longrightarrow> map2 (\<lambda>q s. q ^ 2 - s) q s ! j = (q ! j) ^ 2 - s ! j"
  by simp

lemma converged_iff:
  assumes "length q = length used_cond" "length s = length used_cond"
  shows "converged eps re delta (map2 (\<lambda>q s. q ^ 2 - s) q s) used_cond \<longleftrightarrow>
         (re \<and> delta < eps \<and> (\<forall>j < length used_cond. \<not> used_cond ! j \<longrightarrow> (q ! j) ^ 2 - s ! j \<le> 0))"
  using assms mask_select_all [of "map Not used_cond" "map2 (\<lambda>q s. q ^ 2 - s) q s" "\<lambda>th. th \<le> 0"]
  by (auto simp: converged_def Let_def)

lemma iteration_unfold:
  assumes "st_queue st = i # rest"
      and "select_action (st_alpha st) (st_used_cond st) (st_s st) (st_q st)
             (map2 (\<lambda>q s. q ^ 2 - s) (st_q st) (st_s st)) i = (alpha', used', re)"
      and "0 < alpha' ! i" and "0 < st_alpha st ! i"
  shows "iteration inv_f pinv_f eps K y n st =
     (if converged eps re (ln (alpha' ! i) - ln (st_alpha st ! i))
           (map2 (\<lambda>q s. q ^ 2 - s) (st_q st) (st_s st)) (st_used_cond st)
      then Inr (Break (st\<lparr>st_alpha := alpha', st_used_cond := used', st_queue := rest @ [i]\<rparr>))
      else (case estimate_noise inv_f pinv_f K alpha' used' y n (st_sigma_squared st) of
              Inl e \<Rightarrow> Inl e
            | Inr sigma_squared \<Rightarrow>
               (case calculate_statistics inv_f pinv_f K alpha' used' y sigma_squared of
                  Inl e \<Rightarrow> Inl e
                | Inr (Sigma', mu, s, q, Phi) \<Rightarrow>
                    Inr (Continue
                      \<lparr>st_alpha = alpha', st_used_cond = used', st_Sigma = Sigma', st_mu = mu,
                       st_s = s, st_q = q, st_Phi = Phi, st_sigma_squared = sigma_squared,
                       st_queue = rest @ [i]\<rparr>))))"
  using assms by (simp add: iteration_def math_log_def Let_def)

lemma iteration_state:
  assumes "st_queue st = i # rest"
      and "iteration inv_f pinv_f eps K y n st = Inr r"
  shows "st_alpha (outcome_state r) =
           fst (select_action (st_alpha st) (st_used_cond st) (st_s st) (st_q st)
                  (map2 (\<lambda>q s. q ^ 2 - s) (st_q st) (st_s st)) i) \<and>
         st_used_cond (outcome_state r) =
           fst (snd (select_action (st_alpha st) (st_used_cond st) (st_s st) (st_q st)
                  (map2 (\<lambda>q s. q ^ 2 - s) (st_q st) (st_s st)) i)) \<and>
         st_queue (outcome_state r) = rest @ [i]"
  using assms
  by (auto simp: iteration_def Let_def split: sum.splits prod.splits if_splits)


lemma residual_sq:
  "(linalg_norm (map2 (-) y p)) ^ 2 = sum_list (map (\<lambda>r. r ^ 2) (map2 (-) y p))"
  by (rule norm_sq)


subsection \<open>C3: when the loop is left\<close>

text \<open>
  C3.  Consider a pass whose logarithms are defined (the candidate's precision is positive
  before and after the action).  If the action was a re-estimation, the change
  \<open>ln alpha_new - ln alpha_old\<close> of the candidate's precision is below the tolerance, and
  every candidate that is inactive after the action has \<open>theta = q\<^sup>2 - s \<le> 0\<close>, then the pass
  ends in \<^verbatim>\<open>break\<close> and the loop returns the state with the updated precisions.  If this
  condition fails, the pass is completed (noise variance and statistics are recomputed) and
  the loop goes on with the remaining passes.
\<close>
theorem loop_breaks_iff_converged:
  assumes "st_queue st = i # rest"
      and "length (st_q st) = length (st_used_cond st)"
      and "length (st_s st) = length (st_used_cond st)"
      and "select_action (st_alpha st) (st_used_cond st) (st_s st) (st_q st)
             (map2 (\<lambda>q s. q ^ 2 - s) (st_q st) (st_s st)) i = (alpha', used', re)"
      and "0 < alpha' ! i" and "0 < st_alpha st ! i"
      and "only_LinAlgError inv_f"
  shows "(spec_converged eps re (alpha' ! i) (st_alpha st ! i) (st_q st) (st_s st) used' \<longrightarrow>
            iteration inv_f pinv_f eps K y n st =
              Inr (Break (st\<lparr>st_alpha := alpha', st_used_cond := used', st_queue := rest @ [i]\<rparr>)) \<and>
            run_loop inv_f pinv_f eps K y n (Suc k) st =
              Inr (st\<lparr>st_alpha := alpha', st_used_cond := used', st_queue := rest @ [i]\<rparr>)) \<and>
         (\<not> spec_converged eps re (alpha' ! i) (st_alpha st ! i) (st_q st) (st_s st) used' \<longrightarrow>
            (\<exists>st'. iteration inv_f pinv_f eps K y n st = Inr (Continue st') \<and>
                   run_loop inv_f pinv_f eps K y n (Suc k) st =
                     run_loop inv_f pinv_f eps K y n k st'))"
proof -
  let ?theta = "map2 (\<lambda>q s. q ^ 2 - s) (st_q st) (st_s st)"
  let ?delta = "ln (alpha' ! i) - ln (st_alpha st ! i)"
  let ?P = "spec_converged eps re (alpha' ! i) (st_alpha st ! i) (st_q st) (st_s st) used'"
  have sc: "?P \<longleftrightarrow>
             (re \<and> ?delta < eps \<and>
              (\<forall>j < length used'. \<not> used' ! j \<longrightarrow> (st_q st ! j) ^ 2 - st_s st ! j \<le> 0))"
    by (auto simp: spec_converged_def list_all_iff)
  have len: "length used' = length (st_used_cond st)"
    using assms(4) by (auto simp: select_action_def split: if_splits)
  have same: "re \<Longrightarrow> used' = st_used_cond st"
    using assms(4) by (auto simp: select_action_def split: if_splits)
  have conv: "converged eps re ?delta ?theta (st_used_cond st) \<longleftrightarrow> ?P"
  proof (cases re)
    case True
    then show ?thesis
      using converged_iff [OF assms(2) assms(3), of eps re ?delta] same sc by simp
  next
    case False
    then show ?thesis
      using sc by (simp add: converged_def)
  qed
  note unf = iteration_unfold [OF assms(1) assms(4) assms(5) assms(6), of inv_f pinv_f eps K y n]
  show ?thesis
  proof (intro conjI impI)
    assume ?P
    then show "iteration inv_f pinv_f eps K y n st =
      Inr (Break (st\<lparr>st_alpha := alpha', st_used_cond := used', st_queue := rest @ [i]\<rparr>))"
      using unf conv by simp
    then show "run_loop inv_f pinv_f eps K y n (Suc k) st =
      Inr (st\<lparr>st_alpha := alpha', st_used_cond := used', st_queue := rest @ [i]\<rparr>)"
      by simp
  next
    assume np: "\<not> ?P"
    obtain v where v: "estimate_noise inv_f pinv_f K alpha' used' y n (st_sigma_squared st) = Inr v"
      using estimate_noise_total [OF assms(7)] by blast
    obtain w where w: "calculate_statistics inv_f pinv_f K alpha' used' y v = Inr w"
      using calculate_statistics_total [OF assms(7)] by blast
    obtain Sigma' mu s q Phi where w': "w = (Sigma', mu, s, q, Phi)"
      by (cases w) auto
    have "iteration inv_f pinv_f eps K y n st =
       Inr (Continue \<lparr>st_alpha = alpha', st_used_cond = used', st_Sigma = Sigma', st_mu = mu,
                       st_s = s, st_q = q, st_Phi = Phi, st_sigma_squared = v,
                       st_queue = rest @ [i]\<rparr>)"
      using unf conv np v w w' by simp
    then show "\<exists>st'. iteration inv_f pinv_f eps K y n st = Inr (Continue st') \<and>
                   run_loop inv_f pinv_f eps K y n (Suc k) st =
                     run_loop inv_f pinv_f eps K y n k st'"
      by simp
  qed
qed

theorem loop_breaks_iff_converged_witness:
  "st_queue ex_conv = 0 # [1, 2] \<and>
   select_action (st_alpha ex_conv) (st_used_cond ex_conv) (st_s ex_conv) (st_q ex_conv)
      (map2 (\<lambda>q s. q ^ 2 - s) (st_q ex_conv) (st_s ex_conv)) 0
     = ([2, INFINITY, INFINITY], [True, False, False], True) \<and>
   only_LinAlgError inv_small \<and>
   spec_converged ex_tol True 2 2 (st_q ex_conv) (st_s ex_conv) [True, False, False] \<and>
   iteration inv_small pinv_small ex_tol ex_K ex_y 2 ex_conv
     = Inr (Break (ex_conv\<lparr>st_alpha := [2, INFINITY, INFINITY],
                           st_used_cond := [True, False, False], st_queue := [1, 2, 0]\<rparr>)) \<and>
   st_queue ex_st0 = 0 # [1, 2] \<and>
   \<not> spec_converged ex_tol True (5 / 4) (5 / 4) (st_q ex_st0) (st_s ex_st0) [True, False, False] \<and>
   (\<exists>st'. iteration inv_small pinv_small ex_tol ex_K ex_y 2 ex_st0 = Inr (Continue st'))"
proof -
  have q: "st_queue ex_conv = 0 # [1, 2]"
    by (simp add: ex_conv_def)
  have l: "length (st_q ex_conv) = length (st_used_cond ex_conv)"
    "length (st_s ex_conv) = length (st_used_cond ex_conv)"
    by (simp_all add: ex_conv_def)
  have act: "select_action (st_alpha ex_conv) (st_used_cond ex_conv) (st_s ex_conv) (st_q ex_conv)
      (map2 (\<lambda>q s. q ^ 2 - s) (st_q ex_conv) (st_s ex_conv)) 0
     = ([2, INFINITY, INFINITY], [True, False, False], True)"
    by (simp add: ex_conv_def select_action_def INFINITY_def)
  have p: "0 < [2, INFINITY, INFINITY] ! 0" "0 < st_alpha ex_conv ! 0"
    by (simp_all add: ex_conv_def)
  have sc: "spec_converged ex_tol True 2 2 (st_q ex_conv) (st_s ex_conv) [True, False, False]"
    by (simp add: spec_converged_def ex_conv_def ex_tol_def small_lists)
  have brk: "iteration inv_small pinv_small ex_tol ex_K ex_y 2 ex_conv
     = Inr (Break (ex_conv\<lparr>st_alpha := [2, INFINITY, INFINITY],
                           st_used_cond := [True, False, False], st_queue := [1, 2, 0]\<rparr>))"
    using loop_breaks_iff_converged [where st = ex_conv and i = 0 and rest = "[1, 2]"
        and eps = ex_tol and K = ex_K and y = ex_y and n = 2 and k = 0
        and inv_f = inv_small and pinv_f = pinv_small,
        OF q l act p inv_small_only_LinAlgError] sc
    by (simp add: ex_conv_def)
  have q0: "st_queue ex_st0 = 0 # [1, 2]"
    by (simp add: ex_st0_def)
  have l0: "length (st_q ex_st0) = length (st_used_cond ex_st0)"
    "length (st_s ex_st0) = length (st_used_cond ex_st0)"
    by (simp_all add: ex_st0_def)
  have act0: "select_action (st_alpha ex_st0) (st_used_cond ex_st0) (st_s ex_st0) (st_q ex_st0)
      (map2 (\<lambda>q s. q ^ 2 - s) (st_q ex_st0) (st_s ex_st0)) 0
     = ([5 / 4, INFINITY, INFINITY], [True, False, False], True)"
    by (simp add: ex_st0_def select_action_def INFINITY_def)
  have p0: "0 < [5 / 4, INFINITY, INFINITY] ! 0" "0 < st_alpha ex_st0 ! 0"
    by (simp_all add: ex_st0_def)
  have nsc: "\<not> spec_converged ex_tol True (5 / 4) (5 / 4) (st_q ex_st0) (st_s ex_st0)
                 [True, False, False]"
    by (simp add: spec_converged_def ex_st0_def small_lists power_divide)
  have cont: "\<exists>st'. iteration inv_small pinv_small ex_tol ex_K ex_y 2 ex_st0 = Inr (Continue st')"
    using loop_breaks_iff_converged [where st = ex_st0 and i = 0 and rest = "[1, 2]"
        and eps = ex_tol and K = ex_K and y = ex_y and n = 2 and k = 0
        and inv_f = inv_small and pinv_f = pinv_small,
        OF q0 l0 act0 p0 inv_small_only_LinAlgError] nsc
    by (auto simp: ex_st0_def)
  show ?thesis
    using q act inv_small_only_LinAlgError sc brk q0 nsc cont by blast
qed

subsection \<open>C4: the action on the candidate\<close>

text \<open>
  C4.  For the candidate \<open>i\<close> at the head of the queue, with \<open>theta = q[i]\<^sup>2 - s[i]\<close> and
  activity tested as \<open>alpha[i] < INFINITY\<close>: a positive \<open>theta\<close> on an active candidate
  re-estimates its precision to \<open>s[i]\<^sup>2 / theta\<close>; a positive \<open>theta\<close> on an inactive one marks
  it active with that precision; a non-positive \<open>theta\<close> on an active one marks it inactive
  with the precision \<open>INFINITY\<close>; otherwise nothing changes.  No other entry of the precision
  vector or of the mask changes, and the state a pass leaves carries exactly this result,
  with the candidate moved to the end of the queue.
\<close>
theorem action_by_theta_and_activity:
  assumes "st_queue st = i # rest"
      and "i < length (st_q st)" and "i < length (st_s st)"
      and "theta = (st_q st ! i) ^ 2 - st_s st ! i"
      and "act = select_action (st_alpha st) (st_used_cond st) (st_s st) (st_q st)
                   (map2 (\<lambda>q s. q ^ 2 - s) (st_q st) (st_s st)) i"
  shows "(0 < theta \<and> st_alpha st ! i < INFINITY \<longrightarrow>
            act = ((st_alpha st)[i := (st_s st ! i) ^ 2 / theta], st_used_cond st, True)) \<and>
         (0 < theta \<and> \<not> st_alpha st ! i < INFINITY \<longrightarrow>
            act = ((st_alpha st)[i := (st_s st ! i) ^ 2 / theta],
                   (st_used_cond st)[i := True], False)) \<and>
         (theta \<le> 0 \<and> st_alpha st ! i < INFINITY \<longrightarrow>
            act = ((st_alpha st)[i := INFINITY], (st_used_cond st)[i := False], False)) \<and>
         (theta \<le> 0 \<and> \<not> st_alpha st ! i < INFINITY \<longrightarrow>
            act = (st_alpha st, st_used_cond st, False)) \<and>
         (\<forall>j. j \<noteq> i \<longrightarrow> fst act ! j = st_alpha st ! j \<and>
                        fst (snd act) ! j = st_used_cond st ! j) \<and>
         (\<forall>r. iteration inv_f pinv_f eps K y n st = Inr r \<longrightarrow>
              st_alpha (outcome_state r) = fst act \<and>
              st_used_cond (outcome_state r) = fst (snd act) \<and>
              st_queue (outcome_state r) = rest @ [i])"
proof -
  have th: "map2 (\<lambda>q s. q ^ 2 - s) (st_q st) (st_s st) ! i = theta"
    using assms(2,3,4) by simp
  have cases: "(0 < theta \<and> st_alpha st ! i < INFINITY \<longrightarrow>
            act = ((st_alpha st)[i := (st_s st ! i) ^ 2 / theta], st_used_cond st, True)) \<and>
         (0 < theta \<and> \<not> st_alpha st ! i < INFINITY \<longrightarrow>
            act = ((st_alpha st)[i := (st_s st ! i) ^ 2 / theta],
                   (st_used_cond st)[i := True], False)) \<and>
         (theta \<le> 0 \<and> st_alpha st ! i < INFINITY \<longrightarrow>
            act = ((st_alpha st)[i := INFINITY], (st_used_cond st)[i := False], False)) \<and>
         (theta \<le> 0 \<and> \<not> st_alpha st ! i < INFINITY \<longrightarrow>
            act = (st_alpha st, st_used_cond st, False))"
    using th assms(4) by (simp add: assms(5) select_action_def)
  have others: "\<forall>j. j \<noteq> i \<longrightarrow> fst act ! j = st_alpha st ! j \<and>
                        fst (snd act) ! j = st_used_cond st ! j"
    by (simp add: assms(5) select_action_def)
  have link: "\<forall>r. iteration inv_f pinv_f eps K y n st = Inr r \<longrightarrow>
              st_alpha (outcome_state r) = fst act \<and>
              st_used_cond (outcome_state r) = fst (snd act) \<and>
              st_queue (outcome_state r) = rest @ [i]"
    using iteration_state [OF assms(1)] assms(5) by blast
  show ?thesis
    using cases others link by blast
qed

theorem action_by_theta_and_activity_witness:
  "select_action [1, INFINITY, 2, INFINITY] [True, False, True, False] [1, 1, 1, 1] [2, 2, 0, 0]
      (map2 (\<lambda>q s. q ^ 2 - s) [2, 2, 0, 0] [1, 1, 1, 1]) 0
     = ([1 / 3, INFINITY, 2, INFINITY], [True, False, True, False], True) \<and>
   select_action [1, INFINITY, 2, INFINITY] [True, False, True, False] [1, 1, 1, 1] [2, 2, 0, 0]
      (map2 (\<lambda>q s. q ^ 2 - s) [2, 2, 0, 0] [1, 1, 1, 1]) 1
     = ([1, 1 / 3, 2, INFINITY], [True, True, True, False], False) \<and>
   select_action [1, INFINITY, 2, INFINITY] [True, False, True, False] [1, 1, 1, 1] [2, 2, 0, 0]
      (map2 (\<lambda>q s. q ^ 2 - s) [2, 2, 0, 0] [1, 1, 1, 1]) 2
     = ([1, INFINITY, INFINITY, INFINITY], [True, False, False, False], False) \<and>
   select_action [1, INFINITY, 2, INFINITY] [True, False, True, False] [1, 1, 1, 1] [2, 2, 0, 0]
      (map2 (\<lambda>q s. q ^ 2 - s) [2, 2, 0, 0] [1, 1, 1, 1]) 3
     = ([1, INFINITY, 2, INFINITY], [True, False, True, False], False) \<and>
   iteration inv_small pinv_small ex_tol ex_K ex_y 2 ex_st0 = Inr (Continue ex_st1) \<and>
   st_alpha ex_st1 = [5 / 4, INFINITY, INFINITY] \<and>
   st_used_cond ex_st1 = [True, False, False] \<and>
   st_queue ex_st1 = [1, 2] @ [0]"
proof -
  have inf: "(1::real) < INFINITY" "(2::real) < INFINITY" "\<not> INFINITY < INFINITY"
    by (simp_all add: INFINITY_def)
  have c0: "select_action [1, INFINITY, 2, INFINITY] [True, False, True, False] [1, 1, 1, 1]
      [2, 2, 0, 0] (map2 (\<lambda>q s. q ^ 2 - s) [2, 2, 0, 0] [1, 1, 1, 1]) 0
     = ([1 / 3, INFINITY, 2, INFINITY], [True, False, True, False], True)"
    using action_by_theta_and_activity [where st = "ex_sel [0, 1, 2, 3]" and i = 0
        and rest = "[1, 2, 3]" and theta = 3, OF _ _ _ _ refl] inf
    by (simp add: ex_sel_def)
  have c1: "select_action [1, INFINITY, 2, INFINITY] [True, False, True, False] [1, 1, 1, 1]
      [2, 2, 0, 0] (map2 (\<lambda>q s. q ^ 2 - s) [2, 2, 0, 0] [1, 1, 1, 1]) 1
     = ([1, 1 / 3, 2, INFINITY], [True, True, True, False], False)"
    using action_by_theta_and_activity [where st = "ex_sel [1, 2, 3, 0]" and i = 1
        and rest = "[2, 3, 0]" and theta = 3, OF _ _ _ _ refl] inf
    by (simp add: ex_sel_def)
  have c2: "select_action [1, INFINITY, 2, INFINITY] [True, False, True, False] [1, 1, 1, 1]
      [2, 2, 0, 0] (map2 (\<lambda>q s. q ^ 2 - s) [2, 2, 0, 0] [1, 1, 1, 1]) 2
     = ([1, INFINITY, INFINITY, INFINITY], [True, False, False, False], False)"
    using action_by_theta_and_activity [where st = "ex_sel [2, 3, 0, 1]" and i = 2
        and rest = "[3, 0, 1]" and theta = "- 1", OF _ _ _ _ refl] inf
    by (simp add: ex_sel_def)
  have c3: "select_action [1, INFINITY, 2, INFINITY] [True, False, True, False] [1, 1, 1, 1]
      [2, 2, 0, 0] (map2 (\<lambda>q s. q ^ 2 - s) [2, 2, 0, 0] [1, 1, 1, 1]) 3
     = ([1, INFINITY, 2, INFINITY], [True, False, True, False], False)"
    using action_by_theta_and_activity [where st = "ex_sel [3, 0, 1, 2]" and i = 3
        and rest = "[0, 1, 2]" and theta = "- 1", OF _ _ _ _ refl] inf
    by (simp add: ex_sel_def)
  have a0: "select_action (st_alpha ex_st0) (st_used_cond ex_st0) (st_s ex_st0) (st_q ex_st0)
      (map2 (\<lambda>q s. q ^ 2 - s) (st_q ex_st0) (st_s ex_st0)) 0
     = ([5 / 4, INFINITY, INFINITY], [True, False, False], True)"
    by (simp add: ex_st0_def select_action_def INFINITY_def)
  have st1: "st_alpha ex_st1 = [5 / 4, INFINITY, INFINITY]"
    "st_used_cond ex_st1 = [True, False, False]" "st_queue ex_st1 = [1, 2] @ [0]"
    using action_by_theta_and_activity [where st = ex_st0 and i = 0 and rest = "[1, 2]"
        and theta = 20 and inv_f = inv_small and pinv_f = pinv_small and eps = ex_tol
        and K = ex_K and y = ex_y and n = 2, OF _ _ _ _ refl] ex_pass1 a0
    by (simp_all add: ex_st0_def)
  show ?thesis
    using c0 c1 c2 c3 ex_pass1 st1 by simp
qed

subsection \<open>C7: sparsity and quality factors\<close>




subsection \<open>C8: the noise variance\<close>

text \<open>
  C8.  With \<open>Sigma\<close> and \<open>mu\<close> recomputed from the updated precisions and mask, the new noise
  variance is the squared norm of the residual \<open>y - Phi mu\<close> divided by
  \<open>n_samples - |active| + sum (alpha_active * diag Sigma)\<close>; it is not negative when this
  denominator is positive.  Every completed pass stores this value as its noise variance.
\<close>
theorem noise_variance_formula:
  assumes "invert inv_f pinv_f (precision_matrix K alpha used_cond sigma_squared) = Inr Sigma'"
      and "Phi = map (mask_select used_cond) K"
      and "mu = posterior_mean Sigma' Phi y sigma_squared (count_true used_cond)"
      and "denom = real n - real (count_true used_cond) +
                   sum_list (map2 (*) (mask_select used_cond alpha) (diagonal Sigma'))"
  shows "estimate_noise inv_f pinv_f K alpha used_cond y n sigma_squared =
           Inr (sum_list (map (\<lambda>r. r ^ 2) (map2 (-) y (mat_vec Phi mu))) / denom) \<and>
         (0 < denom \<longrightarrow>
            0 \<le> sum_list (map (\<lambda>r. r ^ 2) (map2 (-) y (mat_vec Phi mu))) / denom) \<and>
         (\<forall>st st'. iteration inv_f pinv_f eps K y n st = Inr (Continue st') \<longrightarrow>
            estimate_noise inv_f pinv_f K (st_alpha st') (st_used_cond st') y n
              (st_sigma_squared st) = Inr (st_sigma_squared st'))"
proof -
  have formula: "estimate_noise inv_f pinv_f K alpha used_cond y n sigma_squared =
           Inr (sum_list (map (\<lambda>r. r ^ 2) (map2 (-) y (mat_vec Phi mu))) / denom)"
    using assms by (simp add: estimate_noise_def Let_def residual_sq)
  have nonneg: "0 < denom \<Longrightarrow>
            0 \<le> sum_list (map (\<lambda>r. r ^ 2) (map2 (-) y (mat_vec Phi mu))) / denom"
    using sum_sq_nonneg [of "map2 (-) y (mat_vec Phi mu)"] by simp
  have link: "iteration inv_f pinv_f eps K y n st = Inr (Continue st') \<Longrightarrow>
            estimate_noise inv_f pinv_f K (st_alpha st') (st_used_cond st') y n
              (st_sigma_squared st) = Inr (st_sigma_squared st')" for st st'
    by (auto simp: iteration_def Let_def split: list.splits sum.splits prod.splits if_splits)
  show ?thesis
    using formula nonneg link by blast
qed

theorem noise_variance_formula_witness:
  "invert inv_small pinv_small (precision_matrix ex_K [5 / 4, INFINITY, INFINITY]
      [True, False, False] (2 / 5)) = Inr [[4 / 25]] \<and>
   posterior_mean [[4 / 25]] (map (mask_select [True, False, False]) ex_K) ex_y (2 / 5)
      (count_true [True, False, False]) = [4 / 5] \<and>
   real 2 - real (count_true [True, False, False]) +
      sum_list (map2 (*) (mask_select [True, False, False] [5 / 4, INFINITY, INFINITY])
                  (diagonal [[4 / 25]])) = 6 / 5 \<and>
   (0::real) < 6 / 5 \<and>
   sum_list (map (\<lambda>r. r ^ 2)
      (map2 (-) ex_y (mat_vec (map (mask_select [True, False, False]) ex_K) [4 / 5])))
     = 202 / 25 \<and>
   estimate_noise inv_small pinv_small ex_K [5 / 4, INFINITY, INFINITY] [True, False, False]
      ex_y 2 (2 / 5) = Inr (101 / 15) \<and>
   iteration inv_small pinv_small ex_tol ex_K ex_y 2 ex_st0 = Inr (Continue ex_st1) \<and>
   estimate_noise inv_small pinv_small ex_K (st_alpha ex_st1) (st_used_cond ex_st1) ex_y 2
      (st_sigma_squared ex_st0) = Inr (st_sigma_squared ex_st1)"
proof -
  have i: "invert inv_small pinv_small (precision_matrix ex_K [5 / 4, INFINITY, INFINITY]
      [True, False, False] (2 / 5)) = Inr [[4 / 25]]"
    by (simp add: la_defs Let_def small_lists ex_K_def)
  have m: "posterior_mean [[4 / 25]] (map (mask_select [True, False, False]) ex_K) ex_y (2 / 5)
      (count_true [True, False, False]) = [4 / 5]"
    by (simp add: la_defs Let_def small_lists ex_K_def ex_y_def)
  have d: "real 2 - real (count_true [True, False, False]) +
      sum_list (map2 (*) (mask_select [True, False, False] [5 / 4, INFINITY, INFINITY])
                  (diagonal [[4 / 25]])) = 6 / 5"
    by (simp add: la_defs)
  have r: "sum_list (map (\<lambda>r. r ^ 2)
      (map2 (-) ex_y (mat_vec (map (mask_select [True, False, False]) ex_K) [4 / 5])))
     = 202 / 25"
    by (simp add: la_defs ex_K_def ex_y_def power_divide)
  note t = noise_variance_formula [OF i refl refl refl, of ex_y 2 ex_tol]
  have e: "estimate_noise inv_small pinv_small ex_K [5 / 4, INFINITY, INFINITY]
      [True, False, False] ex_y 2 (2 / 5) = Inr (101 / 15)"
    using t [THEN conjunct1] unfolding m d r by simp
  have l: "estimate_noise inv_small pinv_small ex_K (st_alpha ex_st1) (st_used_cond ex_st1) ex_y 2
      (st_sigma_squared ex_st0) = Inr (st_sigma_squared ex_st1)"
    using t ex_pass1 by blast
  show ?thesis
    using i m d r e l ex_pass1 by simp
qed

subsection \<open>C10: the sign of the candidate's precision\<close>

text \<open>
  C10 (as amended).  After the action the candidate's precision is never negative, and it is
  strictly positive whenever \<open>s[i] \<noteq> 0\<close> or \<open>theta \<le> 0\<close>.  When \<open>theta > 0\<close> and \<open>s[i] = 0\<close>
  the new precision is \<open>0\<close>.  The two logarithms of the convergence delta are defined when
  the precision is positive after and before the action; when either is not positive the
  pass raises ValueError.
\<close>
theorem precision_after_action:
  assumes "st_queue st = i # rest"
      and "i < length (st_alpha st)" and "i < length (st_q st)" and "i < length (st_s st)"
      and "theta = (st_q st ! i) ^ 2 - st_s st ! i"
      and "select_action (st_alpha st) (st_used_cond st) (st_s st) (st_q st)
             (map2 (\<lambda>q s. q ^ 2 - s) (st_q st) (st_s st)) i = (alpha', used', re)"
  shows "0 \<le> alpha' ! i \<and>
         (st_s st ! i \<noteq> 0 \<or> theta \<le> 0 \<longrightarrow> 0 < alpha' ! i) \<and>
         (0 < theta \<and> st_s st ! i = 0 \<longrightarrow> alpha' ! i = 0) \<and>
         (0 < alpha' ! i \<and> 0 < st_alpha st ! i \<longrightarrow>
            math_log (alpha' ! i) = Inr (ln (alpha' ! i)) \<and>
            math_log (st_alpha st ! i) = Inr (ln (st_alpha st ! i))) \<and>
         (alpha' ! i \<le> 0 \<or> st_alpha st ! i \<le> 0 \<longrightarrow>
            iteration inv_f pinv_f eps K y n st = Inl ValueError)"
proof -
  have th: "map2 (\<lambda>q s. q ^ 2 - s) (st_q st) (st_s st) ! i = theta"
    using assms(3,4,5) by simp
  have inf: "0 < INFINITY"
    by (simp add: INFINITY_def)
  have new: "alpha' ! i =
      (if 0 < theta then (st_s st ! i) ^ 2 / theta
       else if st_alpha st ! i < INFINITY then INFINITY else st_alpha st ! i)"
    using assms(2,6) th assms(5)
    by (auto simp: select_action_def split: if_splits)
  have nonneg: "0 \<le> alpha' ! i"
    using inf by (simp add: new)
  have pos: "st_s st ! i \<noteq> 0 \<or> theta \<le> 0 \<Longrightarrow> 0 < alpha' ! i"
    using inf by (auto simp: new)
  have zero: "0 < theta \<and> st_s st ! i = 0 \<Longrightarrow> alpha' ! i = 0"
    by (simp add: new)
  have raise: "alpha' ! i \<le> 0 \<or> st_alpha st ! i \<le> 0 \<Longrightarrow>
               iteration inv_f pinv_f eps K y n st = Inl ValueError"
    using assms(1,6)
    by (auto simp: iteration_def math_log_def Let_def)
  show ?thesis
    using nonneg pos zero raise by (simp add: math_log_def)
qed

theorem precision_after_action_witness:
  "st_queue ex_st0 = 0 # [1, 2] \<and>
   select_action (st_alpha ex_st0) (st_used_cond ex_st0) (st_s ex_st0) (st_q ex_st0)
      (map2 (\<lambda>q s. q ^ 2 - s) (st_q ex_st0) (st_s ex_st0)) 0
     = ([5 / 4, INFINITY, INFINITY], [True, False, False], True) \<and>
   st_s ex_st0 ! 0 \<noteq> 0 \<and>
   (0::real) < [5 / 4, INFINITY, INFINITY] ! 0 \<and>
   0 < st_alpha ex_st0 ! 0 \<and>
   math_log ([5 / 4, INFINITY, INFINITY] ! 0) = Inr (ln ([5 / 4, INFINITY, INFINITY] ! 0)) \<and>
   math_log (st_alpha ex_st0 ! 0) = Inr (ln (st_alpha ex_st0 ! 0)) \<and>
   st_queue ex_zero = 0 # [1, 2] \<and>
   select_action (st_alpha ex_zero) (st_used_cond ex_zero) (st_s ex_zero) (st_q ex_zero)
      (map2 (\<lambda>q s. q ^ 2 - s) (st_q ex_zero) (st_s ex_zero)) 0
     = ([0, INFINITY, INFINITY], [True, False, False], True) \<and>
   (0::real) < (st_q ex_zero ! 0) ^ 2 - st_s ex_zero ! 0 \<and>
   st_s ex_zero ! 0 = 0 \<and>
   [0, INFINITY, INFINITY] ! 0 \<le> (0::real) \<and>
   iteration inv_small pinv_small ex_tol ex_K ex_y 2 ex_zero = Inl ValueError"
proof -
  have q0: "st_queue ex_st0 = 0 # [1, 2]"
    and l0: "0 < length (st_alpha ex_st0)" "0 < length (st_q ex_st0)" "0 < length (st_s ex_st0)"
    by (simp_all add: ex_st0_def)
  have a0: "select_action (st_alpha ex_st0) (st_used_cond ex_st0) (st_s ex_st0) (st_q ex_st0)
      (map2 (\<lambda>q s. q ^ 2 - s) (st_q ex_st0) (st_s ex_st0)) 0
     = ([5 / 4, INFINITY, INFINITY], [True, False, False], True)"
    by (simp add: ex_st0_def select_action_def INFINITY_def)
  note t0 = precision_after_action [OF q0 l0 refl a0, of inv_small pinv_small ex_tol ex_K ex_y 2]
  have s0: "st_s ex_st0 ! 0 \<noteq> 0" "0 < st_alpha ex_st0 ! 0"
    by (simp_all add: ex_st0_def)
  have p0: "(0::real) < [5 / 4, INFINITY, INFINITY] ! 0"
    using t0 s0 by blast
  have m0: "math_log ([5 / 4, INFINITY, INFINITY] ! 0) = Inr (ln ([5 / 4, INFINITY, INFINITY] ! 0))"
    "math_log (st_alpha ex_st0 ! 0) = Inr (ln (st_alpha ex_st0 ! 0))"
    using t0 s0 p0 by blast+
  have qz: "st_queue ex_zero = 0 # [1, 2]"
    and lz: "0 < length (st_alpha ex_zero)" "0 < length (st_q ex_zero)" "0 < length (st_s ex_zero)"
    by (simp_all add: ex_zero_def)
  have az: "select_action (st_alpha ex_zero) (st_used_cond ex_zero) (st_s ex_zero) (st_q ex_zero)
      (map2 (\<lambda>q s. q ^ 2 - s) (st_q ex_zero) (st_s ex_zero)) 0
     = ([0, INFINITY, INFINITY], [True, False, False], True)"
    by (simp add: ex_zero_def select_action_def INFINITY_def)
  note tz = precision_after_action [OF qz lz refl az, of inv_small pinv_small ex_tol ex_K ex_y 2]
  have sz: "(0::real) < (st_q ex_zero ! 0) ^ 2 - st_s ex_zero ! 0" "st_s ex_zero ! 0 = 0"
    by (simp_all add: ex_zero_def)
  have zz: "[0, INFINITY, INFINITY] ! 0 \<le> (0::real)"
    using tz sz by simp
  have vz: "iteration inv_small pinv_small ex_tol ex_K ex_y 2 ex_zero = Inl ValueError"
    using tz zz by blast
  show ?thesis
    using q0 a0 s0 p0 m0 qz az sz zz vz by blast
qed

text \<open>
  The claim as stated fails: in the state \<open>ex_zero\<close> the candidate has \<open>theta = 1 > 0\<close> and
  \<open>s = 0\<close>, its re-estimated precision is \<open>0\<close> and the pass raises ValueError; and for the
  targets \<open>[-2, 3]\<close> the first pass of the loop raises ValueError, because the initial
  precision of the bias is negative.
\<close>
theorem precision_after_action_counterexample:
  "select_action (st_alpha ex_zero) (st_used_cond ex_zero) (st_s ex_zero) (st_q ex_zero)
      (map2 (\<lambda>q s. q ^ 2 - s) (st_q ex_zero) (st_s ex_zero)) 0
     = ([0, INFINITY, INFINITY], [True, False, False], True) \<and>
   \<not> 0 < [0, INFINITY, INFINITY] ! 0 \<and>
   math_log ([0, INFINITY, INFINITY] ! 0) = Inl ValueError \<and>
   iteration inv_small pinv_small ex_tol ex_K ex_y 2 ex_zero = Inl ValueError \<and>
   fit_loop inv_small pinv_small ex_tol 1 ex_K [- 2, 3] 2 (5 / 8) = Inl ValueError"
proof -
  have az: "select_action (st_alpha ex_zero) (st_used_cond ex_zero) (st_s ex_zero) (st_q ex_zero)
      (map2 (\<lambda>q s. q ^ 2 - s) (st_q ex_zero) (st_s ex_zero)) 0
     = ([0, INFINITY, INFINITY], [True, False, False], True)"
    by (simp add: ex_zero_def select_action_def INFINITY_def)
  have it: "iteration inv_small pinv_small ex_tol ex_K ex_y 2 ex_zero = Inl ValueError"
    by (simp add: iteration_def select_action_def math_log_def Let_def ex_zero_def INFINITY_def)
  have init: "initial_state inv_small pinv_small ex_K [- 2, 3] 2 (5 / 8) = Inr ex_neg"
    by (simp add: initial_state_def calculate_statistics_def la_defs norm_sq Let_def small_lists
        power_divide INFINITY_def ex_K_def ex_neg_def)
  have fl: "fit_loop inv_small pinv_small ex_tol 1 ex_K [- 2, 3] 2 (5 / 8) = Inl ValueError"
    by (simp add: fit_loop_def init iteration_def select_action_def math_log_def Let_def
        INFINITY_def power_divide ex_neg_def)
  show ?thesis
    using az it fl by (simp add: math_log_def)
qed

end
